theory Spec2Isabelle
  imports Main "HOL-Library.Word"
begin

unbundle bit_operations_syntax

section \<open>libfault: crash diagnostics runtime (cbits/libfault/libfault.c)\<close>

text \<open>
  Conventions of the embedding.
  \<^item> A C string is the list of its bytes before the terminating NUL; a pointer that
    may be \<open>NULL\<close> is an \<open>option\<close>.
  \<^item> A C \<open>int\<close> that is only copied and compared (descriptors, process ids, return
    codes) is an \<open>int\<close>; integers whose width matters are words. The sizes are
    those of Linux: \<open>int\<close> and \<open>unsigned int\<close> 32 bits, \<open>unsigned long long\<close>
    64 bits; \<open>unsigned long\<close> and pointers have the width \<open>'w\<close> of the machine word
    (32 on i386 and ARM, 64 on x86-64).
  \<^item> A \<open>char*\<close> cursor into a buffer is the pair of the buffer's bytes (a map from
    offsets to bytes) and the offset pointed at. Writing past the end of the C array
    is not modelled: the buffer has every offset.
  \<^item> What a process does is the list of its system calls in order (\<open>event\<close>),
    with a flag telling whether control is still in this code afterwards (it is not
    after \<open>_exit\<close> and after an \<open>exec\<close> that succeeds). The results of the
    system calls are inputs. \<open>fork\<close> returning 0 is the child's side of the same code.
\<close>

subsection \<open>Environment lookup\<close>

type_synonym environ = "string \<Rightarrow> string option"

definition libfault_env_get :: "environ \<Rightarrow> string \<Rightarrow> string option \<Rightarrow> string option" where
  "libfault_env_get getenv name def =
     (case getenv name of
        Some val \<Rightarrow> if val \<noteq> [] then Some val else def
      | None \<Rightarrow> def)"

definition libfault_env_enabled :: "environ \<Rightarrow> string \<Rightarrow> bool \<Rightarrow> bool" where
  "libfault_env_enabled getenv name def =
     (case libfault_env_get getenv name None of
        Some val \<Rightarrow>
          val = ''yes'' \<or> val = ''YES'' \<or> val = ''y'' \<or> val = ''Y''
          \<or> val = ''on'' \<or> val = ''ON'' \<or> val = ''true'' \<or> val = ''TRUE''
      | None \<Rightarrow> def)"

subsection \<open>Safe-format primitives\<close>

type_synonym mem = "nat \<Rightarrow> char"
type_synonym cursor = "mem \<times> nat"

text \<open>The bytes from \<open>base\<close> up to the cursor: what \<open>write(fd, base, end - base)\<close> sends.\<close>

definition content :: "cursor \<Rightarrow> nat \<Rightarrow> string" where
  "content b base = map (fst b) [base..<snd b]"

fun libfault_safe_strlen :: "string \<Rightarrow> nat" where
  "libfault_safe_strlen [] = 0"
| "libfault_safe_strlen (c # p) = Suc (libfault_safe_strlen p)"

text \<open>\<open>strcpy\<close> of the C library: the bytes of the source, then the terminating NUL.\<close>

fun strcpy :: "mem \<Rightarrow> nat \<Rightarrow> string \<Rightarrow> mem" where
  "strcpy m dst [] = m(dst := CHR 0x00)"
| "strcpy m dst (c # src) = strcpy (m(dst := c)) (Suc dst) src"

definition libfault_append_text :: "cursor \<Rightarrow> string \<Rightarrow> cursor" where
  "libfault_append_text buf text =
     (let len = libfault_safe_strlen text
      in (strcpy (fst buf) (snd buf) text, snd buf + len))"

text \<open>
  \<open>libfault_reverse\<close> swaps the bytes at \<open>p1\<close> and \<open>p2\<close> with three exclusive-ors
  while \<open>p2 > p1\<close>, and does nothing when the first byte is NUL.
\<close>

definition xor_char :: "char \<Rightarrow> char \<Rightarrow> char" where
  "xor_char a b = char_of ((of_char a :: nat) XOR of_char b)"

definition xor_swap :: "mem \<Rightarrow> nat \<Rightarrow> nat \<Rightarrow> mem" where
  "xor_swap m p1 p2 =
     (let m1 = m(p1 := xor_char (m p1) (m p2));
          m2 = m1(p2 := xor_char (m1 p2) (m1 p1));
          m3 = m2(p1 := xor_char (m2 p1) (m2 p2))
      in m3)"

function reverse_loop :: "mem \<Rightarrow> nat \<Rightarrow> nat \<Rightarrow> mem" where
  "reverse_loop m p1 p2 =
     (if p2 > p1 then reverse_loop (xor_swap m p1 p2) (Suc p1) (p2 - 1) else m)"
  by pat_completeness auto
termination
  by (relation "measure (\<lambda>(m, p1, p2). p2 - p1)") auto

definition libfault_reverse :: "mem \<Rightarrow> nat \<Rightarrow> nat \<Rightarrow> mem" where
  "libfault_reverse m str len =
     (if m str = CHR 0x00 then m else reverse_loop m str (str + len - 1))"

definition libfault_ascii_digits :: string where
  "libfault_ascii_digits = ''0123456789''"

definition libfault_ascii_chars :: string where
  "libfault_ascii_chars = ''0123456789abcdef''"

text \<open>
  The \<open>do ... while (remainder != 0)\<close> loop of \<open>libfault_append_ull\<close>: one digit is
  stored at \<open>buf[sz]\<close>, least significant first, before the test.
\<close>

function ull_digits_loop :: "mem \<Rightarrow> nat \<Rightarrow> 64 word \<Rightarrow> nat \<Rightarrow> mem \<times> nat" where
  "ull_digits_loop m buf remainder sz =
     (if remainder div 10 \<noteq> 0
      then ull_digits_loop (m(buf + sz := libfault_ascii_digits ! unat (remainder mod 10)))
             buf (remainder div 10) (Suc sz)
      else (m(buf + sz := libfault_ascii_digits ! unat (remainder mod 10)), Suc sz))"
  by pat_completeness auto
termination
proof (relation "measure (\<lambda>(m, buf, remainder, sz). unat remainder)")
  show "wf (measure (\<lambda>(m, buf, remainder, sz). unat remainder))" by simp
next
  fix m :: mem and buf sz :: nat and remainder :: "64 word"
  assume "remainder div 10 \<noteq> 0"
  then have "unat (remainder div 10) \<noteq> 0"
    by (simp add: unat_eq_zero)
  then have "unat remainder div 10 \<noteq> 0"
    by (simp add: unat_div)
  then have "unat remainder div 10 < unat remainder" by simp
  then show "((m(buf + sz := libfault_ascii_digits ! unat (remainder mod 10)), buf,
               remainder div 10, Suc sz), (m, buf, remainder, sz))
        \<in> measure (\<lambda>(m, buf, remainder, sz). unat remainder)"
    by (simp add: unat_div)
qed

definition libfault_append_ull :: "cursor \<Rightarrow> 64 word \<Rightarrow> cursor" where
  "libfault_append_ull buf v =
     (let (m, sz) = ull_digits_loop (fst buf) (snd buf) v 0
      in (libfault_reverse m (snd buf) sz, snd buf + sz))"

text \<open>
  The three hexadecimal formatters have one body; only the operand type and with it
  \<open>sizeof\<close> differ. The digit loop is the one above in base 16; the \<open>for\<close> loop
  then stores \<open>'0'\<close> until \<open>2 * sizeof\<close> bytes are there, and the bytes are reversed.
\<close>

lemma unat_div16_less:
  fixes r :: "'a::len word"
  assumes "r div 16 \<noteq> 0"
  shows "unat (r div 16) < unat r"
proof -
  let ?k = "take_bit LENGTH('a) (16 :: nat)"
  have div: "unat (r div 16) = unat r div ?k"
    by (simp add: unat_div)
  have "unat (r div 16) \<noteq> 0"
    using assms by (simp add: unat_eq_zero)
  then have nz: "unat r div ?k \<noteq> 0"
    unfolding div .
  have k: "?k = 16 mod 2 ^ LENGTH('a)"
    by (simp add: take_bit_eq_mod)
  have "(2::nat) dvd 16 mod 2 ^ LENGTH('a)"
    by (rule dvd_mod) simp_all
  then have "?k \<noteq> 1" unfolding k by auto
  moreover have "?k \<noteq> 0" using nz by (auto intro: ccontr)
  ultimately have "1 < ?k" by arith
  moreover have "0 < unat r" using nz by (auto intro: ccontr)
  ultimately have "unat r div ?k < unat r" by simp
  then show ?thesis unfolding div .
qed

function hex_digits_loop :: "mem \<Rightarrow> nat \<Rightarrow> 'a::len word \<Rightarrow> nat \<Rightarrow> mem \<times> nat" where
  "hex_digits_loop m buf remainder sz =
     (if remainder div 16 \<noteq> 0
      then hex_digits_loop (m(buf + sz := libfault_ascii_chars ! unat (remainder mod 16)))
             buf (remainder div 16) (Suc sz)
      else (m(buf + sz := libfault_ascii_chars ! unat (remainder mod 16)), Suc sz))"
  by pat_completeness auto
termination
  by (relation "measure (\<lambda>(m, buf, remainder, sz). unat remainder)")
     (simp_all add: unat_div16_less)

function hex_pad_loop :: "mem \<Rightarrow> nat \<Rightarrow> nat \<Rightarrow> nat \<Rightarrow> nat \<Rightarrow> mem \<times> nat" where
  "hex_pad_loop m buf sz i n =
     (if i < n then hex_pad_loop (m(buf + sz := CHR ''0'')) buf (Suc sz) (Suc i) n else (m, sz))"
  by pat_completeness auto
termination
  by (relation "measure (\<lambda>(m, buf, sz, i, n). n - i)") simp_all

definition append_hex :: "nat \<Rightarrow> cursor \<Rightarrow> 'a::len word \<Rightarrow> cursor" where
  "append_hex sizeof_T buf v =
     (case hex_digits_loop (fst buf) (snd buf) v 0 of
        (m, off) \<Rightarrow>
          (case hex_pad_loop m (snd buf) off 0 (sizeof_T * 2 - off) of
             (m, sz) \<Rightarrow> (libfault_reverse m (snd buf) sz, snd buf + sz)))"

definition libfault_append_hex_uint :: "cursor \<Rightarrow> 32 word \<Rightarrow> cursor" where
  "libfault_append_hex_uint buf v = append_hex 4 buf v"

definition libfault_append_hex_ull :: "cursor \<Rightarrow> 64 word \<Rightarrow> cursor" where
  "libfault_append_hex_ull buf v = append_hex 8 buf v"

definition libfault_append_hex_ul :: "cursor \<Rightarrow> 'w::len word \<Rightarrow> cursor" where
  "libfault_append_hex_ul buf v = append_hex (LENGTH('w) div 8) buf v"

text \<open>
  \<open>libfault_append_ptr2str\<close> compares \<open>sizeof(void*)\<close> with the sizes of
  \<open>unsigned int\<close> and of \<open>unsigned long long\<close>.
\<close>

definition libfault_append_ptr2str :: "cursor \<Rightarrow> 'w::len word \<Rightarrow> cursor" where
  "libfault_append_ptr2str buf pointer =
     (if LENGTH('w) div 8 = 4
      then libfault_append_hex_uint (libfault_append_text buf ''0x'') (ucast pointer)
      else if LENGTH('w) div 8 = 8
      then libfault_append_hex_ull (libfault_append_text buf ''0x'') (ucast pointer)
      else libfault_append_text buf ''(pointer size unsupported)'')"

text \<open>
  Signal numbers and signal codes are those of \<open><signal.h>\<close> on Linux (x86 and ARM),
  the platform whose register and stack dumps the source supports.
\<close>

definition SIGILL :: int where "SIGILL = 4"
definition SIGABRT :: int where "SIGABRT = 6"
definition SIGBUS :: int where "SIGBUS = 7"
definition SIGFPE :: int where "SIGFPE = 8"
definition SIGKILL :: int where "SIGKILL = 9"
definition SIGSEGV :: int where "SIGSEGV = 11"

text \<open>The conversion \<open>(unsigned long long)x\<close> of a signed integer.\<close>

definition ull_of_int :: "int \<Rightarrow> 64 word" where
  "ull_of_int x = word_of_int x"

definition libfault_append_signo :: "cursor \<Rightarrow> int \<Rightarrow> cursor" where
  "libfault_append_signo buf signo =
     (let named = (\<lambda>name.
            let buf = libfault_append_text buf name;
                buf = libfault_append_text buf ''('';
                buf = libfault_append_ull buf (ull_of_int signo);
                buf = libfault_append_text buf '')''
            in buf)
      in if signo = SIGABRT then named ''SIGABRT''
         else if signo = SIGSEGV then named ''SIGSEGV''
         else if signo = SIGBUS then named ''SIGBUS''
         else if signo = SIGFPE then named ''SIGFPE''
         else if signo = SIGILL then named ''SIGILL''
         else libfault_append_ull buf (ull_of_int signo))"

record 'a siginfo_t =
  si_signo :: int
  si_code :: int
  si_pid :: int
  si_uid :: "32 word"
  si_addr :: 'a

definition SI_USER :: int where "SI_USER = 0"
definition SI_KERNEL :: int where "SI_KERNEL = 128"
definition SI_QUEUE :: int where "SI_QUEUE = - 1"
definition SI_TIMER :: int where "SI_TIMER = - 2"
definition SI_MESGQ :: int where "SI_MESGQ = - 3"
definition SI_ASYNCIO :: int where "SI_ASYNCIO = - 4"
definition SI_SIGIO :: int where "SI_SIGIO = - 5"
definition SI_TKILL :: int where "SI_TKILL = - 6"
definition SEGV_MAPERR :: int where "SEGV_MAPERR = 1"
definition SEGV_ACCERR :: int where "SEGV_ACCERR = 2"
definition BUS_ADRALN :: int where "BUS_ADRALN = 1"
definition BUS_ADRERR :: int where "BUS_ADRERR = 2"
definition BUS_OBJERR :: int where "BUS_OBJERR = 3"

text \<open>
  \<open>libfault_append_sigreason\<close> in its three steps: the mnemonic of the signal code
  (the \<open>switch\<close> on \<open>si_code\<close>, whose default branch looks at \<open>si_signo\<close> and
  appends \<open>#code\<close> when nothing matched), the sender when \<open>si_code \<le> 0\<close>, and
  the fault address.
\<close>

definition append_sigreason_code :: "cursor \<Rightarrow> 'a siginfo_t \<Rightarrow> cursor" where
  "append_sigreason_code buf info =
     (let code = si_code info;
          unhandled = (\<lambda>buf.
            let buf = libfault_append_text buf ''#'';
                buf = libfault_append_ull buf (ull_of_int code)
            in buf)
      in if code = SI_USER then libfault_append_text buf ''SI_USER''
         else if code = SI_QUEUE then libfault_append_text buf ''SI_QUEUE''
         else if code = SI_TIMER then libfault_append_text buf ''SI_TIMER''
         else if code = SI_KERNEL then libfault_append_text buf ''SI_KERNEL''
         else if code = SI_ASYNCIO then libfault_append_text buf ''SI_ASYNCIO''
         else if code = SI_MESGQ then libfault_append_text buf ''SI_MESGQ''
         else if code = SI_SIGIO then libfault_append_text buf ''SI_SIGIO''
         else if code = SI_TKILL then libfault_append_text buf ''SI_TKILL''
         else if si_signo info = SIGSEGV then
           (if code = SEGV_MAPERR then libfault_append_text buf ''SEGV_MAPERR''
            else if code = SEGV_ACCERR then libfault_append_text buf ''SEGV_ACCERR''
            else unhandled buf)
         else if si_signo info = SIGBUS then
           (if code = BUS_ADRALN then libfault_append_text buf ''BUS_ADRALN''
            else if code = BUS_ADRERR then libfault_append_text buf ''BUS_ADRERR''
            else if code = BUS_OBJERR then libfault_append_text buf ''BUS_OBJERR''
            else unhandled buf)
         else unhandled buf)"

definition append_sigreason_sender :: "cursor \<Rightarrow> 'a siginfo_t \<Rightarrow> cursor" where
  "append_sigreason_sender buf info =
     (if si_code info \<le> 0 then
        let buf = libfault_append_text buf '', signal sent by PID '';
            buf = libfault_append_ull buf (ull_of_int (si_pid info));
            buf = libfault_append_text buf '' with UID '';
            buf = libfault_append_ull buf (ucast (si_uid info))
        in buf
      else buf)"

definition libfault_append_sigreason :: "cursor \<Rightarrow> ('w::len word) siginfo_t \<Rightarrow> cursor" where
  "libfault_append_sigreason buf info =
     (let buf = append_sigreason_code buf info;
          buf = append_sigreason_sender buf info;
          buf = libfault_append_text buf '', si_addr='';
          buf = libfault_append_ptr2str buf (si_addr info)
      in buf)"

text \<open>
  The C string held in a character array of \<open>n\<close> bytes: its bytes up to the first NUL.
\<close>

definition c_string :: "nat \<Rightarrow> mem \<Rightarrow> string" where
  "c_string n m = takeWhile (\<lambda>c. c \<noteq> CHR 0x00) (map m [0..<n])"


subsection \<open>Decimal and hexadecimal representations\<close>

text \<open>
  The representations the formatters are compared with: \<open>decimal n\<close> is the usual
  decimal numeral of \<open>n\<close>, most significant digit first and without leading zeros;
  \<open>hex_pad k n\<close> is the numeral of \<open>n\<close> in base 16 in exactly \<open>k\<close> digits, most
  significant first, padded with zeros on the left; \<open>hex_value\<close> reads such a numeral
  back.
\<close>

definition digit_char :: "nat \<Rightarrow> char" where
  "digit_char d = ''0123456789'' ! d"

function decimal :: "nat \<Rightarrow> string" where
  "decimal n = (if n < 10 then [digit_char n] else decimal (n div 10) @ [digit_char (n mod 10)])"
  by pat_completeness auto
termination
proof (relation "measure (\<lambda>n. n)")
  show "wf (measure (\<lambda>n. n))" by simp
next
  fix n :: nat
  assume "\<not> n < 10"
  then have "n div 10 < n" by simp
  then show "(n div 10, n) \<in> measure (\<lambda>n. n)" by simp
qed

definition hex_char :: "nat \<Rightarrow> char" where
  "hex_char d = ''0123456789abcdef'' ! d"

function hex_min :: "nat \<Rightarrow> string" where
  "hex_min n = (if n < 16 then [hex_char n] else hex_min (n div 16) @ [hex_char (n mod 16)])"
  by pat_completeness auto
termination
proof (relation "measure (\<lambda>n. n)")
  show "wf (measure (\<lambda>n. n))" by simp
next
  fix n :: nat
  assume "\<not> n < 16"
  then have "n div 16 < n" by simp
  then show "(n div 16, n) \<in> measure (\<lambda>n. n)" by simp
qed

primrec hex_pad :: "nat \<Rightarrow> nat \<Rightarrow> string" where
  "hex_pad 0 n = []"
| "hex_pad (Suc k) n = hex_pad k (n div 16) @ [hex_char (n mod 16)]"

definition hex_digit_value :: "char \<Rightarrow> nat" where
  "hex_digit_value c =
     (if CHR ''0'' = c then 0 else if CHR ''1'' = c then 1 else if CHR ''2'' = c then 2
      else if CHR ''3'' = c then 3 else if CHR ''4'' = c then 4 else if CHR ''5'' = c then 5
      else if CHR ''6'' = c then 6 else if CHR ''7'' = c then 7 else if CHR ''8'' = c then 8
      else if CHR ''9'' = c then 9 else if CHR ''a'' = c then 10 else if CHR ''b'' = c then 11
      else if CHR ''c'' = c then 12 else if CHR ''d'' = c then 13 else if CHR ''e'' = c then 14
      else 15)"

definition hex_value :: "string \<Rightarrow> nat" where
  "hex_value s = foldl (\<lambda>acc c. 16 * acc + hex_digit_value c) 0 s"

text \<open>
  \<open>hex_written buf' buf sizeof_T v\<close>: from the cursor \<open>buf\<close> on, exactly
  \<open>2 * sizeof_T\<close> bytes were written, they are the zero-padded hexadecimal numeral of
  \<open>v\<close>, no other byte of the buffer changed, and \<open>buf'\<close> is the cursor behind them.
\<close>

definition hex_written :: "cursor \<Rightarrow> cursor \<Rightarrow> nat \<Rightarrow> nat \<Rightarrow> bool" where
  "hex_written buf' buf sizeof_T v \<longleftrightarrow>
     snd buf' = snd buf + 2 * sizeof_T
     \<and> content buf' (snd buf) = hex_pad (2 * sizeof_T) v
     \<and> length (content buf' (snd buf)) = 2 * sizeof_T
     \<and> hex_value (content buf' (snd buf)) = v
     \<and> (\<forall>a. a < snd buf \<or> snd buf + 2 * sizeof_T \<le> a \<longrightarrow> fst buf' a = fst buf a)"

declare decimal.simps [simp del]
declare hex_min.simps [simp del]
declare reverse_loop.simps [simp del]
declare ull_digits_loop.simps [simp del]
declare hex_digits_loop.simps [simp del]
declare hex_pad_loop.simps [simp del]

subsection \<open>The texts of signal numbers and signal reasons\<close>

text \<open>
  \<open>ull_decimal n\<close> is the decimal numeral of \<open>n\<close> after its conversion to
  \<open>unsigned long long\<close>, which is \<open>n\<close> itself unless \<open>n\<close> is negative.
\<close>

definition signo_name :: "int \<Rightarrow> string option" where
  "signo_name n =
     (if n = SIGABRT then Some ''SIGABRT''
      else if n = SIGSEGV then Some ''SIGSEGV''
      else if n = SIGBUS then Some ''SIGBUS''
      else if n = SIGFPE then Some ''SIGFPE''
      else if n = SIGILL then Some ''SIGILL''
      else None)"

definition ull_decimal :: "int \<Rightarrow> string" where
  "ull_decimal n = decimal (nat (n mod 2 ^ 64))"

definition signo_text :: "int \<Rightarrow> string" where
  "signo_text n =
     (case signo_name n of
        Some name \<Rightarrow> name @ ''('' @ ull_decimal n @ '')''
      | None \<Rightarrow> ull_decimal n)"

definition ptr_text :: "'w::len word \<Rightarrow> string" where
  "ptr_text p =
     (if LENGTH('w) div 8 = 4 then ''0x'' @ hex_pad 8 (unat (ucast p :: 32 word))
      else if LENGTH('w) div 8 = 8 then ''0x'' @ hex_pad 16 (unat (ucast p :: 64 word))
      else ''(pointer size unsupported)'')"

definition sigcode_text :: "'a siginfo_t \<Rightarrow> string" where
  "sigcode_text info =
     (let code = si_code info; unhandled = ''#'' @ ull_decimal code in
      if code = SI_USER then ''SI_USER''
      else if code = SI_QUEUE then ''SI_QUEUE''
      else if code = SI_TIMER then ''SI_TIMER''
      else if code = SI_KERNEL then ''SI_KERNEL''
      else if code = SI_ASYNCIO then ''SI_ASYNCIO''
      else if code = SI_MESGQ then ''SI_MESGQ''
      else if code = SI_SIGIO then ''SI_SIGIO''
      else if code = SI_TKILL then ''SI_TKILL''
      else if si_signo info = SIGSEGV then
        (if code = SEGV_MAPERR then ''SEGV_MAPERR''
         else if code = SEGV_ACCERR then ''SEGV_ACCERR''
         else unhandled)
      else if si_signo info = SIGBUS then
        (if code = BUS_ADRALN then ''BUS_ADRALN''
         else if code = BUS_ADRERR then ''BUS_ADRERR''
         else if code = BUS_OBJERR then ''BUS_OBJERR''
         else unhandled)
      else unhandled)"

definition sigsender_text :: "'a siginfo_t \<Rightarrow> string" where
  "sigsender_text info =
     (if si_code info \<le> 0
      then '', signal sent by PID '' @ ull_decimal (si_pid info)
           @ '' with UID '' @ decimal (unat (si_uid info))
      else [])"

definition sigreason_text :: "('w::len word) siginfo_t \<Rightarrow> string" where
  "sigreason_text info =
     sigcode_text info @ sigsender_text info @ '', si_addr='' @ ptr_text (si_addr info)"

subsection \<open>File-descriptor limit and highest descriptor\<close>

text \<open>
  \<open>libfault_get_fd_limit\<close> with the integer sizes of 64-bit Linux: \<open>sysconf\<close> returns
  a \<open>long\<close> (64 bits, as \<open>long long\<close> is), \<open>rlim_max\<close> is an unsigned 64-bit
  \<open>rlim_t\<close> that the code casts to \<open>long long\<close>, the comparisons are signed, and the
  \<open>long\<close> result is returned as an \<open>int\<close> (its low 32 bits).
\<close>

record fd_limit_env =
  sysconf_OPEN_MAX :: "64 word"
  getrlimit_ret :: int
  rlim_max :: "64 word"

definition INT_MAX :: int where
  "INT_MAX = 2147483647"

text \<open>The limit the function settles on before it looks at the sign and at small values.\<close>

definition fd_limit_selected :: "fd_limit_env \<Rightarrow> 64 word" where
  "fd_limit_selected e =
     (let sysconfResult = sysconf_OPEN_MAX e;
          rlimitResult = (if getrlimit_ret e = - 1 then 0 else rlim_max e)
      in if sint rlimitResult \<ge> INT_MAX \<or> sint sysconfResult > sint rlimitResult
         then sysconfResult
         else rlimitResult)"

definition libfault_get_fd_limit :: "fd_limit_env \<Rightarrow> 32 word" where
  "libfault_get_fd_limit e =
     (let result = fd_limit_selected e;
          result = (if sint result < 0 then 9999
                    else if sint result < 2 then 2
                    else result)
      in ucast result)"

text \<open>
  \<open>libfault_get_highest_fd\<close> (the branch without \<open>F_MAXFD\<close>) leaves its local
  \<open>result\<close> at \<open>-1\<close> on every path but one: pipe creation fails, the descriptor
  flags cannot be read, the fork fails, the poll times out or fails, or the read fails
  or meets the end of file before four bytes came. Only four bytes read from the child
  set it. The value at the label \<open>done\<close> is summed up by \<open>fd_scan\<close>.
\<close>

datatype fd_scan =
    Pipe_failed
  | Getfl_failed
  | Fork_failed
  | Poll_failed
  | Read_failed
  | Scanned "32 word"

definition scan_result :: "fd_scan \<Rightarrow> 32 word" where
  "scan_result s = (case s of Scanned highest \<Rightarrow> highest | _ \<Rightarrow> - 1)"

definition libfault_get_highest_fd :: "fd_scan \<Rightarrow> fd_limit_env \<Rightarrow> 32 word" where
  "libfault_get_highest_fd s e =
     (let result = scan_result s
      in if result = - 1 then libfault_get_fd_limit e else result)"

subsection \<open>Processes: system calls and runs\<close>

datatype event =
    Write int string
  | Close int
  | Open_create string
  | Pipe
  | Fork
  | Dup2 int int
  | Poll int int int
  | Kill int int
  | Waitpid int
  | Raise int
  | Exit int
  | Execlp string "string list"
  | Select_sleep int
  | Reset_signal_handlers_and_mask
  | Scan_fds
  | Fault

text \<open>
  \<open>Write fd bytes\<close> is \<open>write(fd, buf, n)\<close> with the \<open>n\<close> bytes sent; \<open>Open_create\<close> is
  \<open>open(name, O_WRONLY | O_CREAT | O_TRUNC, 0600)\<close>; \<open>Poll fd events timeout\<close> polls one
  descriptor; \<open>Exit\<close> is \<open>_exit\<close>; \<open>Select_sleep usec\<close> is the \<open>select\<close> call used as a
  sleep; \<open>Scan_fds\<close> stands for the system calls of \<open>libfault_get_highest_fd\<close>;
  \<open>Fault\<close> is the dereference of a null pointer. \<open>getpid\<close> and \<open>time\<close> only
  return values, which are inputs.
\<close>

type_synonym run = "event list \<times> bool"

definition does :: "event list \<Rightarrow> run" where
  "does evs = (evs, True)"

definition ends :: "event list \<Rightarrow> run" where
  "ends evs = (evs, False)"

definition seq :: "run \<Rightarrow> run \<Rightarrow> run" where
  "seq r1 r2 = (if snd r1 then (fst r1 @ fst r2, snd r2) else r1)"

fun seqs :: "run list \<Rightarrow> run" where
  "seqs [] = ([], True)"
| "seqs (r # rs) = seq r (seqs rs)"

definition STDERR_FILENO :: int where "STDERR_FILENO = 2"

definition POLLIN :: int where "POLLIN = 1"
definition POLLERR :: int where "POLLERR = 8"
definition POLLHUP :: int where "POLLHUP = 16"

definition libfault_write_err :: "cursor \<Rightarrow> event" where
  "libfault_write_err endp = Write STDERR_FILENO (content endp 0)"

definition libfault_safe_print :: "string \<Rightarrow> event" where
  "libfault_safe_print msg = Write STDERR_FILENO (take (libfault_safe_strlen msg) msg)"

text \<open>\<open>execlp\<close> returns only when it fails; whether a program can be run is an input.\<close>

definition execlp :: "(string \<Rightarrow> bool) \<Rightarrow> string \<Rightarrow> string list \<Rightarrow> run" where
  "execlp ok file args = (if ok file then ends [Execlp file args] else does [Execlp file args])"

record os_env =
  execlp_ok :: "string \<Rightarrow> bool"
  fd_scan_outcome :: fd_scan
  fd_limits :: fd_limit_env

text \<open>
  \<open>libfault_close_all_fds\<close> where neither \<open>F_CLOSEM\<close> nor \<open>closefrom\<close> exists (Linux):
  the loop closes from the highest descriptor down to \<open>last + 1\<close>.
\<close>

function close_fds_loop :: "int \<Rightarrow> int \<Rightarrow> event list" where
  "close_fds_loop i last_fd =
     (if i > last_fd then Close i # close_fds_loop (i - 1) last_fd else [])"
  by pat_completeness auto
termination
  by (relation "measure (\<lambda>(i, last_fd). nat (i - last_fd))") auto

definition libfault_close_all_fds :: "os_env \<Rightarrow> int \<Rightarrow> run" where
  "libfault_close_all_fds os last_fd =
     does (Scan_fds
           # close_fds_loop (sint (libfault_get_highest_fd (fd_scan_outcome os) (fd_limits os)))
               last_fd)"

subsection \<open>Process-wide data\<close>

record libfault_assert_info =
  ai_filename :: "string option"
  ai_function :: "string option"
  ai_expression :: "string option"
  ai_line :: "32 word"

record globals =
  libfault_last_assert_info :: libfault_assert_info
  libfault_custom_diagnostics_dumper :: "run option"
  libfault_beep_on_abort :: bool
  libfault_stop_on_abort :: bool
  emergencyPipe1 :: "int \<times> int"
  emergencyPipe2 :: "int \<times> int"
  libfault_abort_handler_called :: "32 word"
  libfault_app_name :: "string option"
  libfault_app_version :: "string option"
  libfault_bugreport_url :: "string option"
  libfault_log_base :: "string option"
  abort_handler_installed :: bool

text \<open>
  The static initialisers of the source. \<open>abort_handler_installed\<close> stands for the
  five \<open>sigaction\<close> registrations of \<open>libfault_install_abort\<close>. A callback (a function
  pointer) is given by what it does when called.
\<close>

definition initial_globals :: globals where
  "initial_globals =
     \<lparr> libfault_last_assert_info =
         \<lparr> ai_filename = None, ai_function = None, ai_expression = None, ai_line = 0 \<rparr>,
       libfault_custom_diagnostics_dumper = None,
       libfault_beep_on_abort = False,
       libfault_stop_on_abort = False,
       emergencyPipe1 = (- 1, - 1),
       emergencyPipe2 = (- 1, - 1),
       libfault_abort_handler_called = 0,
       libfault_app_name = None,
       libfault_app_version = None,
       libfault_bugreport_url = None,
       libfault_log_base = None,
       abort_handler_installed = False \<rparr>"

text \<open>
  The replacement of glibc's \<open>__assert_fail\<close>: it records the assertion and aborts
  (the message it prints first with \<open>fprintf\<close> is left out).
\<close>

definition assert_fail :: "globals \<Rightarrow> string \<Rightarrow> string \<Rightarrow> 32 word \<Rightarrow> string option \<Rightarrow> globals" where
  "assert_fail g assertion file line func =
     g\<lparr> libfault_last_assert_info :=
         \<lparr> ai_filename = Some file, ai_function = func,
           ai_expression = Some assertion, ai_line = line \<rparr> \<rparr>"

record libfault_ctx =
  ctx_diagnostics :: "run option"
  ctx_app_name :: "string option"
  ctx_app_version :: "string option"
  ctx_log_name :: "string option"
  ctx_bugreport_url :: "string option"

text \<open>
  \<open>libfault_install_handlers\<close>, without the backtrace sanitizer settings and the copy of
  \<open>argv\<close>, which only the backtrace dumper reads. \<open>libfault_install_abort\<close> aborts the
  process when \<open>sigaltstack\<close> fails: the result is \<open>None\<close> then.
\<close>

definition libfault_install_abort :: "bool \<Rightarrow> globals \<Rightarrow> globals option" where
  "libfault_install_abort sigaltstack_ok g =
     (if \<not> sigaltstack_ok then None else Some (g\<lparr> abort_handler_installed := True \<rparr>))"

definition libfault_install_handlers ::
  "environ \<Rightarrow> bool \<Rightarrow> libfault_ctx \<Rightarrow> globals \<Rightarrow> globals option" where
  "libfault_install_handlers getenv sigaltstack_ok ctx g =
     (let installed =
            (if libfault_env_enabled getenv ''LIBFAULT_ABORT_HANDLER'' True
             then libfault_install_abort sigaltstack_ok
                    (g\<lparr> libfault_beep_on_abort :=
                           libfault_env_enabled getenv ''LIBFAULT_BEEP_ON_ABORT'' False,
                         libfault_stop_on_abort :=
                           libfault_env_enabled getenv ''LIBFAULT_STOP_ON_ABORT'' False,
                         libfault_custom_diagnostics_dumper := ctx_diagnostics ctx \<rparr>)
             else Some g)
      in case installed of
           None \<Rightarrow> None
         | Some g \<Rightarrow>
             let g = (if ctx_app_name ctx \<noteq> None
                      then g\<lparr> libfault_app_name := ctx_app_name ctx \<rparr> else g);
                 g = (if ctx_app_version ctx \<noteq> None
                      then g\<lparr> libfault_app_version := ctx_app_version ctx \<rparr> else g);
                 g = (if ctx_bugreport_url ctx \<noteq> None
                      then g\<lparr> libfault_bugreport_url := ctx_bugreport_url ctx \<rparr> else g);
                 g = (if ctx_log_name ctx \<noteq> None
                      then g\<lparr> libfault_log_base := ctx_log_name ctx \<rparr>
                      else g\<lparr> libfault_log_base := Some ''/tmp/exe-crash.libfault.'' \<rparr>)
             in Some g)"

text \<open>
  The emergency-pipe close sequence at the top of the first handler entry: every slot
  that is not \<open>-1\<close> is closed, then all four slots are set to \<open>-1\<close>.
\<close>

definition close_emergency_pipes :: "globals \<Rightarrow> event list \<times> globals" where
  "close_emergency_pipes g =
     (let c = (\<lambda>fd. if fd \<noteq> - 1 then [Close fd] else [])
      in (c (fst (emergencyPipe1 g)) @ c (snd (emergencyPipe1 g))
          @ c (fst (emergencyPipe2 g)) @ c (snd (emergencyPipe2 g)),
          g\<lparr> emergencyPipe1 := (- 1, - 1), emergencyPipe2 := (- 1, - 1) \<rparr>))"

subsection \<open>Handler state\<close>

text \<open>
  The machine context keeps the general registers (\<open>uc_mcontext.gregs\<close>, indexed as
  the array is) and, on ARM, the named stack pointer. The fields of
  \<open>libfault_handler_state\<close> carry the prefix \<open>st_\<close>.
\<close>

record 'a ucontext_t =
  gregs :: "nat \<Rightarrow> 'a"
  arm_sp :: 'a

record 'a libfault_handler_state =
  st_pid :: int
  st_signo :: int
  st_info :: "'a siginfo_t"
  st_msg_prefix :: mem
  st_msg_buffer :: mem
  st_uc :: "'a ucontext_t"

definition separator_line :: string where
  "separator_line = ''--------------------------------------\<newline>''"

subsection \<open>Subprocess runner\<close>

text \<open>
  The results of the system calls of one \<open>libfault_run_subprocess\<close> call. The callback
  is given by what it does when called with the state and the user data.
\<close>

record subprocess_env =
  sp_pipe :: int
  sp_fds :: "int \<times> int"
  sp_errno :: int
  sp_fork :: int
  sp_poll :: int
  sp_waitpid :: int
  sp_status :: int

definition libfault_run_subprocess ::
  "'a libfault_handler_state \<Rightarrow> run \<Rightarrow> int \<Rightarrow> subprocess_env \<Rightarrow> run \<times> int" where
  "libfault_run_subprocess state callback timeLimit e =
     (if sp_pipe e = - 1 then
        (let endp = (st_msg_buffer state, 0);
             endp = libfault_append_text endp
                      ''Could not create subprocess: pipe() failed with errno='';
             endp = libfault_append_ull endp (ull_of_int (sp_errno e));
             endp = libfault_append_text endp ''\<newline>''
         in (does [Pipe, libfault_write_err endp], - 1))
      else
        (let p0 = fst (sp_fds e); p1 = snd (sp_fds e); child = sp_fork e in
         if child = 0 then
           (seqs [does [Pipe, Fork, Close p0], callback, ends [Exit 0]], - 1)
         else if child = - 1 then
           (let endp = (st_msg_buffer state, 0);
                endp = libfault_append_text endp
                         ''Could not create subprocess: fork() failed with errno='';
                endp = libfault_append_ull endp (ull_of_int (sp_errno e));
                endp = libfault_append_text endp ''\<newline>''
            in (does [Pipe, Fork, Close p0, Close p1, libfault_write_err endp], - 1))
         else
           (does ([Pipe, Fork, Close p1, Poll p0 (POLLIN OR POLLHUP OR POLLERR) timeLimit]
                  @ (if sp_poll e \<le> 0
                     then [Kill child SIGKILL,
                           libfault_safe_print
                             ''Could not run child process: it did not exit in time\<newline>'']
                     else [])
                  @ [Close p0, Waitpid child]),
            if sp_waitpid e = child then sp_status e else - 1)))"

subsection \<open>Stack dump\<close>

datatype arch = Linux_i386 | Linux_x86_64 | Linux_arm | Other_platform

text \<open>
  The stack pointer is \<open>gregs[7]\<close> on i386, \<open>gregs[15]\<close> on x86-64 and \<open>arm_sp\<close> on
  ARM; elsewhere \<open>stack\<close> stays \<open>NULL\<close>. \<open>stack + i\<close> is pointer arithmetic on
  \<open>void**\<close>: \<open>i\<close> pointers further. \<open>memory\<close> gives the word stored at an address.
\<close>

definition stack_pointer :: "arch \<Rightarrow> ('w::len word) ucontext_t \<Rightarrow> 'w word" where
  "stack_pointer a uc =
     (case a of
        Linux_i386 \<Rightarrow> gregs uc 7
      | Linux_x86_64 \<Rightarrow> gregs uc 15
      | Linux_arm \<Rightarrow> arm_sp uc
      | Other_platform \<Rightarrow> 0)"

definition stack_slot :: "'w::len word \<Rightarrow> nat \<Rightarrow> 'w word" where
  "stack_slot stack i = stack + of_nat (i * (LENGTH('w) div 8))"

text \<open>
  The loop \<open>for (i = 15; i >= 0; i--)\<close>: the last argument is \<open>i + 1\<close>, so the loop
  starts at 16 and stops at 0.
\<close>

fun dump_stack_loop :: "cursor \<Rightarrow> 'w::len word \<Rightarrow> ('w word \<Rightarrow> 'w word) \<Rightarrow> nat \<Rightarrow> cursor" where
  "dump_stack_loop endp stack memory 0 = endp"
| "dump_stack_loop endp stack memory (Suc i) =
     (let addr = stack_slot stack i;
          val = memory (stack_slot stack i);
          endp = libfault_append_text endp ''('';
          endp = libfault_append_hex_ul (libfault_append_text endp ''0x'') addr;
          endp = libfault_append_text endp '') -> ('';
          endp = libfault_append_hex_ul (libfault_append_text endp ''0x'') val;
          endp = libfault_append_text endp '')\<newline>''
      in dump_stack_loop endp stack memory i)"

definition libfault_dump_stack ::
  "arch \<Rightarrow> ('w word \<Rightarrow> 'w word) \<Rightarrow> ('w::len word) libfault_handler_state \<Rightarrow> run" where
  "libfault_dump_stack a memory state =
     (let endp = (st_msg_buffer state, 0);
          endp = libfault_append_text endp separator_line;
          endp = libfault_append_text endp (c_string 32 (st_msg_prefix state));
          endp = libfault_append_text endp '' ] Stack dump (16 words)\<newline>'';
          stack = stack_pointer a (st_uc state);
          endp = (if stack = 0
                  then libfault_append_text endp
                         ''Stack dumps aren't supported on this platform.\<newline>''
                  else dump_stack_loop endp stack memory 16);
          endp = libfault_append_text endp separator_line
      in ends [libfault_write_err endp, Exit 1])"

subsection \<open>Diagnostics\<close>

record child_env =
  ch_fork :: int
  ch_waitpid :: int
  ch_status :: int

text \<open>
  The pattern \<open>libfault_dump_diagnostics\<close> uses three times: fork; the child runs a
  program and exits with 1 when it cannot; the parent reports a failed fork, or waits
  and reports a failed wait or a status other than 0.
\<close>

definition spawn_and_wait :: "child_env \<Rightarrow> run \<Rightarrow> string \<Rightarrow> string \<Rightarrow> run" where
  "spawn_and_wait e child_side fork_error wait_error =
     (let pid = ch_fork e in
      if pid = 0 then seq (does [Fork]) child_side
      else if pid = - 1 then does [Fork, libfault_safe_print fork_error]
      else if ch_waitpid e \<noteq> pid \<or> ch_status e \<noteq> 0
      then does [Fork, Waitpid pid, libfault_safe_print wait_error]
      else does [Fork, Waitpid pid])"

text \<open>
  The dumpers no statement here is about are given by what they do: the register
  dump and the backtrace (callbacks of \<open>libfault_run_subprocess\<close>), the memory map and
  the descriptor listing (called directly).
\<close>

record other_dumpers =
  libfault_dump_registers :: run
  libfault_dump_backtrace :: run
  libfault_dump_maps :: run
  libfault_dump_fds :: run

record diag_env =
  date_env :: child_env
  uname_env :: child_env
  ulimit_env :: child_env
  registers_env :: subprocess_env
  stack_env :: subprocess_env
  backtrace_env :: subprocess_env
  custom_env :: subprocess_env

text \<open>The block of \<open>libfault_dump_diagnostics\<close> that prints the last assertion failure.\<close>

definition dump_last_assertion :: "globals \<Rightarrow> 'a libfault_handler_state \<Rightarrow> run" where
  "dump_last_assertion g state =
     (let info = libfault_last_assert_info g in
      case ai_filename info of
        None \<Rightarrow> does []
      | Some filename \<Rightarrow>
          (case ai_expression info of
             None \<Rightarrow> ends [Fault]
           | Some expression \<Rightarrow>
               let endp = (st_msg_buffer state, 0);
                   endp = libfault_append_text endp separator_line;
                   endp = libfault_append_text endp (c_string 32 (st_msg_prefix state));
                   endp = libfault_append_text endp '' ] Last assertion failure: ('';
                   endp = libfault_append_text endp expression;
                   endp = libfault_append_text endp ''), '';
                   endp = (case ai_function info of
                             Some func \<Rightarrow>
                               let endp = libfault_append_text endp ''function '';
                                   endp = libfault_append_text endp func;
                                   endp = libfault_append_text endp '', ''
                               in endp
                           | None \<Rightarrow> endp);
                   endp = libfault_append_text endp ''file '';
                   endp = libfault_append_text endp filename;
                   endp = libfault_append_text endp '', line '';
                   endp = libfault_append_ull endp (ucast (ai_line info));
                   endp = libfault_append_text endp ''.\<newline>''
               in does [libfault_write_err endp]))"

definition libfault_dump_diagnostics ::
  "arch \<Rightarrow> ('w word \<Rightarrow> 'w word) \<Rightarrow> other_dumpers \<Rightarrow> os_env \<Rightarrow> globals
     \<Rightarrow> ('w::len word) libfault_handler_state \<Rightarrow> diag_env \<Rightarrow> run" where
  "libfault_dump_diagnostics a memory others os g state e =
     seqs
       [does [libfault_write_err (libfault_append_text (st_msg_buffer state, 0) separator_line)],
        spawn_and_wait (date_env e)
          (seqs [libfault_close_all_fds os 2,
                 execlp (execlp_ok os) ''date'' [''date''],
                 ends [Exit 1]])
          ''ERROR: Could not fork a process to dump the time!\<newline>''
          ''ERROR: Could not run 'date'!\<newline>'',
        spawn_and_wait (uname_env e)
          (seqs [libfault_close_all_fds os 2,
                 execlp (execlp_ok os) ''uname'' [''uname'', ''-mprsv''],
                 ends [Exit 1]])
          ''ERROR: Could not fork a process to dump the uname!\<newline>''
          ''ERROR: Could not run 'uname -mprsv'!\<newline>'',
        spawn_and_wait (ulimit_env e)
          (seqs [libfault_close_all_fds os 2,
                 execlp (execlp_ok os) ''ulimit'' [''ulimit'', ''-a''],
                 execlp (execlp_ok os) ''/bin/sh'' [''/bin/sh'', ''-c'', ''ulimit -a''],
                 ends [Exit 1]])
          ''ERROR: Could not fork a process to dump the ulimit!\<newline>''
          ''ERROR: Could not run 'ulimit -a'!\<newline>'',
        dump_last_assertion g state,
        fst (libfault_run_subprocess state (libfault_dump_registers others) 2000
               (registers_env e)),
        fst (libfault_run_subprocess state (libfault_dump_stack a memory state) 2000
               (stack_env e)),
        does [libfault_write_err
                (libfault_append_text
                   (libfault_append_text (st_msg_buffer state, 0)
                      (c_string 32 (st_msg_prefix state)))
                   '' ] libc backtrace available!\<newline>'')],
        fst (libfault_run_subprocess state (libfault_dump_backtrace others) 4000
               (backtrace_env e)),
        does [libfault_safe_print separator_line],
        (case libfault_custom_diagnostics_dumper g of
           None \<Rightarrow> does []
         | Some dumper \<Rightarrow>
             seqs
               [does [libfault_write_err
                        (libfault_append_text
                           (libfault_append_text (st_msg_buffer state, 0)
                              (c_string 32 (st_msg_prefix state)))
                           '' ] Dumping additional diagnostical information...\<newline>''),
                      libfault_safe_print separator_line],
                fst (libfault_run_subprocess state dumper 2000 (custom_env e)),
                does [libfault_safe_print separator_line]]),
        libfault_dump_maps others,
        does [libfault_safe_print separator_line],
        libfault_dump_fds others,
        does [libfault_safe_print separator_line],
        does [Write STDERR_FILENO ''\<newline>'']]"

subsection \<open>Crash log\<close>




subsection \<open>The root signal handler\<close>











subsection \<open>Texts and examples used in the statements\<close>

text \<open>
  The messages of the source as strings; the theorems show that the code writes
  them. \<open>stack_line\<close> is one line of the stack dump, \<open>(address) -> (value)\<close>, both in
  hexadecimal of the width of a machine word.
\<close>

definition subprocess_failed_message :: "string \<Rightarrow> int \<Rightarrow> string" where
  "subprocess_failed_message call errno =
     ''Could not create subprocess: '' @ call @ ''() failed with errno='' @ ull_decimal errno
     @ ''\<newline>''"

definition stack_line :: "'w::len word \<Rightarrow> ('w word \<Rightarrow> 'w word) \<Rightarrow> nat \<Rightarrow> string" where
  "stack_line stack memory i =
     ''(0x'' @ hex_pad (2 * (LENGTH('w) div 8)) (unat (stack_slot stack i))
     @ '') -> (0x'' @ hex_pad (2 * (LENGTH('w) div 8)) (unat (memory (stack_slot stack i)))
     @ '')\<newline>''"

definition assertion_line :: "string \<Rightarrow> string option \<Rightarrow> string \<Rightarrow> 32 word \<Rightarrow> string" where
  "assertion_line expression func filename line =
     ''Last assertion failure: ('' @ expression @ ''), ''
     @ (case func of Some f \<Rightarrow> ''function '' @ f @ '', '' | None \<Rightarrow> [])
     @ ''file '' @ filename @ '', line '' @ decimal (unat line) @ ''.''"






text \<open>
  The text a run writes is the concatenation of its writes, in order;
  \<open>occurs_in xs ys\<close> holds when the text \<open>xs\<close> occurs in \<open>ys\<close> as a contiguous part.
\<close>

fun starts_with :: "string \<Rightarrow> string \<Rightarrow> bool" where
  "starts_with [] ys = True"
| "starts_with (x # xs) [] = False"
| "starts_with (x # xs) (y # ys) = (x = y \<and> starts_with xs ys)"

fun occurs_in :: "string \<Rightarrow> string \<Rightarrow> bool" where
  "occurs_in xs [] = (xs = [])"
| "occurs_in xs (y # ys) = (starts_with xs (y # ys) \<or> occurs_in xs ys)"

definition written_text :: "run \<Rightarrow> string" where
  "written_text r = concat (map (\<lambda>ev. case ev of Write fd s \<Rightarrow> s | _ \<Rightarrow> []) (fst r))"

subsection \<open>Sequences of deliveries\<close>





text \<open>Concrete inputs for the examples.\<close>

definition example_state :: "(64 word) libfault_handler_state" where
  "example_state =
     \<lparr> st_pid = 100, st_signo = 11,
       st_info = \<lparr> si_signo = 11, si_code = 1, si_pid = 0, si_uid = 0, si_addr = 0 \<rparr>,
       st_msg_prefix = (\<lambda>a. CHR 0x00), st_msg_buffer = (\<lambda>a. CHR 0x00),
       st_uc = \<lparr> gregs = (\<lambda>r. 0), arm_sp = 0 \<rparr> \<rparr>"

definition example_stack_state :: "(64 word) libfault_handler_state" where
  "example_stack_state = example_state\<lparr> st_uc := \<lparr> gregs = (\<lambda>r. 0x1000), arm_sp = 0 \<rparr> \<rparr>"

definition example_subprocess_env :: subprocess_env where
  "example_subprocess_env =
     \<lparr> sp_pipe = 0, sp_fds = (3, 4), sp_errno = 0, sp_fork = 77, sp_poll = 1,
       sp_waitpid = 77, sp_status = 0 \<rparr>"

definition example_child_env :: child_env where
  "example_child_env = \<lparr> ch_fork = 70, ch_waitpid = 70, ch_status = 0 \<rparr>"

definition example_diag_env :: diag_env where
  "example_diag_env =
     \<lparr> date_env = example_child_env, uname_env = example_child_env,
       ulimit_env = example_child_env, registers_env = example_subprocess_env,
       stack_env = example_subprocess_env, backtrace_env = example_subprocess_env,
       custom_env = example_subprocess_env \<rparr>"

definition example_os :: os_env where
  "example_os =
     \<lparr> execlp_ok = (\<lambda>file. True), fd_scan_outcome = Scanned 5,
       fd_limits = \<lparr> sysconf_OPEN_MAX = 1024, getrlimit_ret = 0, rlim_max = 4096 \<rparr> \<rparr>"

definition example_dumpers :: other_dumpers where
  "example_dumpers =
     \<lparr> libfault_dump_registers = ends [Exit 1], libfault_dump_backtrace = ends [Exit 1],
       libfault_dump_maps = does [], libfault_dump_fds = does [] \<rparr>"






section \<open>Properties of the safe-format primitives\<close>


lemma libfault_safe_strlen_length: "libfault_safe_strlen t = length t"
  by (induction t) simp_all

lemma strcpy_below: "a < dst \<Longrightarrow> strcpy m dst t a = m a"
  by (induction t arbitrary: m dst) simp_all

lemma strcpy_at: "i < length t \<Longrightarrow> strcpy m dst t (dst + i) = t ! i"
proof (induction t arbitrary: m dst i)
  case Nil
  then show ?case by simp
next
  case (Cons c t)
  show ?case
  proof (cases i)
    case 0
    then show ?thesis by (simp add: strcpy_below)
  next
    case (Suc j)
    with Cons.prems have "j < length t" by simp
    then have "strcpy (m(dst := c)) (Suc dst) t (Suc dst + j) = t ! j"
      by (rule Cons.IH)
    with Suc show ?thesis by simp
  qed
qed

lemma map_strcpy: "map (strcpy m dst t) [dst..<dst + length t] = t"
  by (rule nth_equalityI) (simp_all add: strcpy_at)

lemma content_extend:
  assumes "base \<le> snd b"
    and "snd b' = snd b + length out"
    and "\<And>a. a < snd b \<Longrightarrow> fst b' a = fst b a"
    and "map (fst b') [snd b..<snd b + length out] = out"
  shows "content b' base = content b base @ out"
proof -
  have "[base..<snd b'] = [base..<snd b] @ [snd b..<snd b + length out]"
    using assms(2) upt_add_eq_append [OF assms(1)] by simp
  then have "content b' base = map (fst b') [base..<snd b] @ map (fst b') [snd b..<snd b + length out]"
    by (simp add: content_def)
  moreover have "map (fst b') [base..<snd b] = map (fst b) [base..<snd b]"
    using assms(3) by simp
  ultimately show ?thesis using assms(4) by (simp add: content_def)
qed

lemma snd_append_text: "snd (libfault_append_text b t) = snd b + length t"
  by (simp add: libfault_append_text_def libfault_safe_strlen_length)

lemma fst_append_text_below: "a < snd b \<Longrightarrow> fst (libfault_append_text b t) a = fst b a"
  by (simp add: libfault_append_text_def strcpy_below)

lemma content_append_text:
  "base \<le> snd b \<Longrightarrow> content (libfault_append_text b t) base = content b base @ t"
  by (rule content_extend)
     (simp_all add: snd_append_text fst_append_text_below,
      simp add: libfault_append_text_def map_strcpy)

lemma char_of_take_bit_of_char:
  assumes "take_bit 8 (x :: nat) = take_bit 8 (of_char a)"
  shows "char_of x = a"
proof -
  have "char_of x = char_of (take_bit 8 x)"
    by (simp add: char_of_take_bit_eq)
  also have "\<dots> = char_of (take_bit 8 (of_char a :: nat))"
    by (simp only: assms)
  also have "\<dots> = a"
    by (simp add: char_of_take_bit_eq)
  finally show ?thesis .
qed

lemma mod_256_take_bit: "(x :: nat) mod 256 = take_bit 8 x"
  by (simp add: take_bit_eq_mod)

lemma nat_xor_left_self: "(x :: nat) XOR (x XOR y) = y"
  by (simp flip: xor.assoc)

lemma xor_char_cancel_right: "xor_char (xor_char a b) a = b"
  unfolding xor_char_def
  by (rule char_of_take_bit_of_char)
     (simp add: of_char_of mod_256_take_bit take_bit_xor xor.commute xor.left_commute nat_xor_left_self)

lemma xor_char_cancel_left: "xor_char b (xor_char a b) = a"
  unfolding xor_char_def
  by (rule char_of_take_bit_of_char)
     (simp add: of_char_of mod_256_take_bit take_bit_xor xor.commute xor.left_commute nat_xor_left_self)

lemma xor_swap_eq: "p1 \<noteq> p2 \<Longrightarrow> xor_swap m p1 p2 = m(p1 := m p2, p2 := m p1)"
  by (auto simp add: xor_swap_def Let_def fun_eq_iff xor_char_cancel_left xor_char_cancel_right)

lemma reverse_loop_apply:
  "reverse_loop m p1 p2 a = (if p1 \<le> a \<and> a \<le> p2 then m (p1 + p2 - a) else m a)"
proof (induction m p1 p2 arbitrary: a rule: reverse_loop.induct)
  case (1 m p1 p2)
  show ?case
  proof (cases "p2 > p1")
    case True
    then have ne: "p1 \<noteq> p2" by simp
    let ?m = "m(p1 := m p2, p2 := m p1)"
    have step: "reverse_loop m p1 p2 a = reverse_loop ?m (Suc p1) (p2 - 1) a"
      using True by (subst reverse_loop.simps) (simp add: xor_swap_eq [OF ne])
    have IH: "reverse_loop ?m (Suc p1) (p2 - 1) a
         = (if Suc p1 \<le> a \<and> a \<le> p2 - 1 then ?m (Suc p1 + (p2 - 1) - a) else ?m a)"
      using "1.IH" [OF True, of a] by (simp only: xor_swap_eq [OF ne])
    have eq: "reverse_loop m p1 p2 a
         = (if Suc p1 \<le> a \<and> a \<le> p2 - 1 then ?m (Suc p1 + (p2 - 1) - a) else ?m a)"
      using step IH by (simp only:)
    show ?thesis
    proof (cases "p1 \<le> a \<and> a \<le> p2")
      case outside: False
      then have nmid: "\<not> (Suc p1 \<le> a \<and> a \<le> p2 - 1)" and "a \<noteq> p1" "a \<noteq> p2"
        using True by auto
      have "reverse_loop m p1 p2 a = ?m a"
        unfolding eq using nmid by (rule if_not_P)
      also have "\<dots> = m a"
        using \<open>a \<noteq> p1\<close> \<open>a \<noteq> p2\<close> by simp
      finally show ?thesis using outside by auto
    next
      case inside: True
      show ?thesis
      proof (cases "a = p1 \<or> a = p2")
        case True
        then have nmid: "\<not> (Suc p1 \<le> a \<and> a \<le> p2 - 1)"
          using \<open>p1 < p2\<close> by auto
        have "reverse_loop m p1 p2 a = ?m a"
          unfolding eq using nmid by (rule if_not_P)
        also have "\<dots> = m (p1 + p2 - a)"
          using True ne by auto
        finally show ?thesis using inside by simp
      next
        case False
        with inside have mid: "Suc p1 \<le> a \<and> a \<le> p2 - 1" by auto
        have "reverse_loop m p1 p2 a = ?m (Suc p1 + (p2 - 1) - a)"
          unfolding eq using mid by (rule if_P)
        also have "Suc p1 + (p2 - 1) - a = p1 + p2 - a"
          using mid \<open>p1 < p2\<close> by arith
        also have "?m (p1 + p2 - a) = m (p1 + p2 - a)"
        proof -
          have "p1 + p2 - a \<noteq> p1" "p1 + p2 - a \<noteq> p2" using mid by auto
          then show ?thesis by simp
        qed
        finally show ?thesis using inside by simp
      qed
    qed
  next
    case False
    then have "reverse_loop m p1 p2 a = m a"
      by (subst reverse_loop.simps) simp
    moreover have "p1 \<le> a \<and> a \<le> p2 \<Longrightarrow> p1 + p2 - a = a"
      using False by arith
    ultimately show ?thesis by auto
  qed
qed

lemma word64_div10_nonzero: "(r :: 64 word) div 10 \<noteq> 0 \<longleftrightarrow> 10 \<le> unat r"
proof -
  have "(r div 10 = 0) = (unat (r div 10) = 0)" by (simp add: unat_eq_zero)
  also have "\<dots> = (unat r div 10 = 0)" by (simp add: unat_div)
  also have "\<dots> = (unat r < 10)" by (simp add: div_eq_0_iff)
  finally show ?thesis by auto
qed

lemma ascii_digit: "d < 10 \<Longrightarrow> libfault_ascii_digits ! d = digit_char d"
  by (simp add: libfault_ascii_digits_def digit_char_def)

lemma ull_digits_loop_spec:
  "ull_digits_loop m buf r sz = (m', sz') \<Longrightarrow>
     sz' = sz + length (decimal (unat r))
     \<and> (\<forall>a. a < buf + sz \<or> buf + sz' \<le> a \<longrightarrow> m' a = m a)
     \<and> map m' [buf + sz..<buf + sz'] = rev (decimal (unat r))"
proof (induction m buf r sz arbitrary: m' sz' rule: ull_digits_loop.induct)
  case (1 m buf r sz)
  let ?d = "libfault_ascii_digits ! unat (r mod 10)"
  have d: "?d = digit_char (unat r mod 10)"
    by (simp add: ascii_digit unat_mod)
  show ?case
  proof (cases "r div 10 \<noteq> 0")
    case True
    then have big: "10 \<le> unat r" by (simp add: word64_div10_nonzero)
    from True "1.prems"
    have run: "ull_digits_loop (m(buf + sz := ?d)) buf (r div 10) (Suc sz) = (m', sz')"
      by (subst (asm) ull_digits_loop.simps) simp
    from "1.IH" [OF True run]
    have len: "sz' = Suc sz + length (decimal (unat (r div 10)))"
      and frame: "\<And>a. a < buf + Suc sz \<or> buf + sz' \<le> a \<Longrightarrow> m' a = (m(buf + sz := ?d)) a"
      and out: "map m' [buf + Suc sz..<buf + sz'] = rev (decimal (unat (r div 10)))"
      by auto
    have dec: "decimal (unat r) = decimal (unat (r div 10)) @ [digit_char (unat r mod 10)]"
      using big by (subst decimal.simps) (simp add: unat_div)
    have "sz' = sz + length (decimal (unat r))"
      using len dec by simp
    moreover have "\<forall>a. a < buf + sz \<or> buf + sz' \<le> a \<longrightarrow> m' a = m a"
      using frame len by auto
    moreover have "map m' [buf + sz..<buf + sz'] = rev (decimal (unat r))"
    proof -
      have "buf + sz < buf + sz'" using len by simp
      then have "[buf + sz..<buf + sz'] = (buf + sz) # [buf + Suc sz..<buf + sz']"
        by (simp add: upt_conv_Cons)
      moreover have "m' (buf + sz) = ?d" using frame [of "buf + sz"] by simp
      ultimately show ?thesis using out dec d by simp
    qed
    ultimately show ?thesis by blast
  next
    case False
    then have small: "unat r < 10" by (simp add: word64_div10_nonzero)
    from False "1.prems" have res: "m' = m(buf + sz := ?d)" "sz' = Suc sz"
      by (subst (asm) ull_digits_loop.simps, simp)+
    have dec: "decimal (unat r) = [digit_char (unat r)]"
      using small by (subst decimal.simps) simp
    show ?thesis using res dec d small by simp
  qed
qed

lemma digit_char_not_nul: "d < 10 \<Longrightarrow> digit_char d \<noteq> CHR 0x00"
proof -
  assume "d < 10"
  then have "d \<in> {0,1,2,3,4,5,6,7,8,9}" by auto
  then show ?thesis by (auto simp add: digit_char_def)
qed

lemma decimal_nonempty: "decimal n \<noteq> []"
  by (subst decimal.simps) simp

lemma last_decimal: "last (decimal n) = digit_char (n mod 10)"
  by (subst decimal.simps) simp

lemma map_reverse:
  assumes "m str \<noteq> CHR 0x00" and "0 < len"
  shows "map (libfault_reverse m str len) [str..<str + len] = rev (map m [str..<str + len])"
  using assms
  by (intro nth_equalityI) (auto simp add: libfault_reverse_def reverse_loop_apply rev_nth)

lemma reverse_outside:
  assumes "a < str \<or> str + len \<le> a" and "0 < len"
  shows "libfault_reverse m str len a = m a"
proof -
  have "\<not> (str \<le> a \<and> a \<le> str + len - 1)"
    using assms by arith
  then show ?thesis
    by (auto simp add: libfault_reverse_def reverse_loop_apply)
qed

lemma append_ull_spec:
  "snd (libfault_append_ull b v) = snd b + length (decimal (unat v))
   \<and> (\<forall>a. a < snd b \<or> snd b + length (decimal (unat v)) \<le> a
          \<longrightarrow> fst (libfault_append_ull b v) a = fst b a)
   \<and> map (fst (libfault_append_ull b v)) [snd b..<snd b + length (decimal (unat v))]
       = decimal (unat v)"
proof -
  obtain m sz where run: "ull_digits_loop (fst b) (snd b) v 0 = (m, sz)"
    by (cases "ull_digits_loop (fst b) (snd b) v 0")
  from ull_digits_loop_spec [OF run]
  have len: "sz = length (decimal (unat v))"
    and frame: "\<And>a. a < snd b \<or> snd b + sz \<le> a \<Longrightarrow> m a = fst b a"
    and out: "map m [snd b..<snd b + sz] = rev (decimal (unat v))"
    by auto
  have pos: "0 < sz" using len decimal_nonempty by simp
  have "[snd b..<snd b + sz] = snd b # [Suc (snd b)..<snd b + sz]"
    using pos by (simp add: upt_conv_Cons)
  with out have "m (snd b) # map m [Suc (snd b)..<snd b + sz] = rev (decimal (unat v))"
    by simp
  then have "m (snd b) = hd (rev (decimal (unat v)))"
    by (metis list.sel(1))
  then have first: "m (snd b) = digit_char (unat v mod 10)"
    by (simp add: hd_rev last_decimal)
  have nz: "m (snd b) \<noteq> CHR 0x00"
    unfolding first by (rule digit_char_not_nul) simp
  have res: "libfault_append_ull b v = (libfault_reverse m (snd b) sz, snd b + sz)"
    by (simp add: libfault_append_ull_def run)
  show ?thesis
    using map_reverse [of m "snd b" sz, OF nz pos] out len frame pos
    by (simp add: res reverse_outside)
qed

lemma snd_append_ull: "snd (libfault_append_ull b v) = snd b + length (decimal (unat v))"
  using append_ull_spec by blast

lemma content_append_ull:
  "base \<le> snd b \<Longrightarrow> content (libfault_append_ull b v) base = content b base @ decimal (unat v)"
  by (rule content_extend) (use append_ull_spec in auto)

lemma take_bit_16:
  assumes "4 < LENGTH('a::len)"
  shows "take_bit LENGTH('a) (16 :: nat) = 16"
proof -
  have "(2::nat) ^ 5 \<le> 2 ^ LENGTH('a)"
    using assms by (intro power_increasing) simp_all
  then have "(16::nat) < 2 ^ LENGTH('a)" by simp
  then show ?thesis by (simp add: take_bit_nat_eq_self_iff)
qed

lemma unat_div16:
  fixes r :: "'a::len word"
  assumes "4 < LENGTH('a)"
  shows "unat (r div 16) = unat r div 16"
  by (simp add: unat_div take_bit_16 [OF assms])

lemma unat_mod16:
  fixes r :: "'a::len word"
  assumes "4 < LENGTH('a)"
  shows "unat (r mod 16) = unat r mod 16"
  by (simp add: unat_mod take_bit_16 [OF assms])

lemma word_div16_nonzero:
  fixes r :: "'a::len word"
  assumes "4 < LENGTH('a)"
  shows "r div 16 \<noteq> 0 \<longleftrightarrow> 16 \<le> unat r"
proof -
  have "(r div 16 = 0) = (unat (r div 16) = 0)" by (simp add: unat_eq_zero)
  also have "\<dots> = (unat r div 16 = 0)" by (simp only: unat_div16 [OF assms])
  also have "\<dots> = (unat r < 16)" by (simp add: div_eq_0_iff)
  finally show ?thesis by auto
qed

lemma ascii_hex_char: "libfault_ascii_chars ! d = hex_char d"
  by (simp add: libfault_ascii_chars_def hex_char_def)

lemma hex_digits_loop_spec:
  fixes r :: "'a::len word"
  assumes "4 < LENGTH('a)"
  shows "hex_digits_loop m buf r sz = (m', sz') \<Longrightarrow>
     sz' = sz + length (hex_min (unat r))
     \<and> (\<forall>a. a < buf + sz \<or> buf + sz' \<le> a \<longrightarrow> m' a = m a)
     \<and> map m' [buf + sz..<buf + sz'] = rev (hex_min (unat r))"
proof (induction m buf r sz arbitrary: m' sz' rule: hex_digits_loop.induct)
  case (1 m buf r sz)
  let ?d = "libfault_ascii_chars ! unat (r mod 16)"
  have d: "?d = hex_char (unat r mod 16)"
    by (simp add: ascii_hex_char unat_mod16 [OF assms])
  show ?case
  proof (cases "r div 16 \<noteq> 0")
    case True
    then have big: "16 \<le> unat r" by (simp add: word_div16_nonzero [OF assms])
    from True "1.prems"
    have run: "hex_digits_loop (m(buf + sz := ?d)) buf (r div 16) (Suc sz) = (m', sz')"
      by (subst (asm) hex_digits_loop.simps) simp
    from "1.IH" [OF True run]
    have len: "sz' = Suc sz + length (hex_min (unat (r div 16)))"
      and frame: "\<And>a. a < buf + Suc sz \<or> buf + sz' \<le> a \<Longrightarrow> m' a = (m(buf + sz := ?d)) a"
      and out: "map m' [buf + Suc sz..<buf + sz'] = rev (hex_min (unat (r div 16)))"
      by auto
    have dec: "hex_min (unat r) = hex_min (unat (r div 16)) @ [hex_char (unat r mod 16)]"
      using big by (subst hex_min.simps) (simp add: unat_div16 [OF assms])
    have "sz' = sz + length (hex_min (unat r))"
      using len dec by simp
    moreover have "\<forall>a. a < buf + sz \<or> buf + sz' \<le> a \<longrightarrow> m' a = m a"
      using frame len by auto
    moreover have "map m' [buf + sz..<buf + sz'] = rev (hex_min (unat r))"
    proof -
      have "buf + sz < buf + sz'" using len by simp
      then have "[buf + sz..<buf + sz'] = (buf + sz) # [buf + Suc sz..<buf + sz']"
        by (simp add: upt_conv_Cons)
      moreover have "m' (buf + sz) = ?d" using frame [of "buf + sz"] by simp
      ultimately show ?thesis using out dec d by simp
    qed
    ultimately show ?thesis by blast
  next
    case False
    then have small: "unat r < 16" by (simp add: word_div16_nonzero [OF assms])
    from False "1.prems" have res: "m' = m(buf + sz := ?d)" "sz' = Suc sz"
      by (subst (asm) hex_digits_loop.simps, simp)+
    have dec: "hex_min (unat r) = [hex_char (unat r)]"
      using small by (subst hex_min.simps) simp
    show ?thesis using res dec d small by simp
  qed
qed

lemma hex_pad_loop_spec:
  "hex_pad_loop m buf sz i n = (m', sz') \<Longrightarrow>
     sz' = sz + (n - i)
     \<and> (\<forall>a. a < buf + sz \<or> buf + sz' \<le> a \<longrightarrow> m' a = m a)
     \<and> map m' [buf + sz..<buf + sz'] = replicate (n - i) CHR ''0''"
proof (induction m buf sz i n arbitrary: m' sz' rule: hex_pad_loop.induct)
  case (1 m buf sz i n)
  show ?case
  proof (cases "i < n")
    case True
    from True "1.prems"
    have run: "hex_pad_loop (m(buf + sz := CHR ''0'')) buf (Suc sz) (Suc i) n = (m', sz')"
      by (subst (asm) hex_pad_loop.simps) simp
    from "1.IH" [OF True run]
    have len: "sz' = Suc sz + (n - Suc i)"
      and frame: "\<And>a. a < buf + Suc sz \<or> buf + sz' \<le> a \<Longrightarrow> m' a = (m(buf + sz := CHR ''0'')) a"
      and out: "map m' [buf + Suc sz..<buf + sz'] = replicate (n - Suc i) CHR ''0''"
      by blast+
    have n: "n - i = Suc (n - Suc i)" using True by simp
    have "sz' = sz + (n - i)" using len n by simp
    moreover have "\<forall>a. a < buf + sz \<or> buf + sz' \<le> a \<longrightarrow> m' a = m a"
      using frame len by auto
    moreover have "map m' [buf + sz..<buf + sz'] = replicate (n - i) CHR ''0''"
    proof -
      have "buf + sz < buf + sz'" using len by simp
      then have "[buf + sz..<buf + sz'] = (buf + sz) # [buf + Suc sz..<buf + sz']"
        by (simp add: upt_conv_Cons)
      moreover have "m' (buf + sz) = CHR ''0''" using frame [of "buf + sz"] by simp
      ultimately show ?thesis using out n by simp
    qed
    ultimately show ?thesis by blast
  next
    case False
    with "1.prems" have "m' = m" "sz' = sz"
      by (subst (asm) hex_pad_loop.simps, simp)+
    with False show ?thesis by simp
  qed
qed

lemma hex_char_0: "hex_char 0 = CHR ''0''"
  by (simp add: hex_char_def)

lemma hex_pad_0: "hex_pad k 0 = replicate k CHR ''0''"
  by (induction k) (simp_all add: hex_char_0 replicate_append_same)

lemma hex_min_nonempty: "hex_min n \<noteq> []"
  by (subst hex_min.simps) simp

lemma last_hex_min: "last (hex_min n) = hex_char (n mod 16)"
  by (subst hex_min.simps) simp

lemma hex_pad_eq:
  "n < 16 ^ k \<Longrightarrow> 0 < k \<Longrightarrow>
     length (hex_min n) \<le> k
     \<and> hex_pad k n = replicate (k - length (hex_min n)) CHR ''0'' @ hex_min n"
proof (induction k arbitrary: n)
  case 0
  then show ?case by simp
next
  case (Suc k)
  show ?case
  proof (cases "n < 16")
    case True
    then have "hex_min n = [hex_char n]" by (subst hex_min.simps) simp
    with True show ?thesis by (simp add: hex_pad_0)
  next
    case False
    then have hm: "hex_min n = hex_min (n div 16) @ [hex_char (n mod 16)]"
      by (subst hex_min.simps) simp
    from Suc.prems have lt: "n div 16 < 16 ^ k"
      by (simp add: less_mult_imp_div_less mult.commute)
    have "0 < k"
    proof (rule ccontr)
      assume "\<not> 0 < k"
      then have "k = 0" by simp
      with Suc.prems False show False by simp
    qed
    from Suc.IH [OF lt this]
    have "length (hex_min (n div 16)) \<le> k"
      and "hex_pad k (n div 16) = replicate (k - length (hex_min (n div 16))) CHR ''0'' @ hex_min (n div 16)"
      by auto
    then show ?thesis by (simp add: hm)
  qed
qed

lemma length_hex_pad: "length (hex_pad k n) = k"
  by (induction k arbitrary: n) simp_all

lemma hex_char_not_nul: "d < 16 \<Longrightarrow> hex_char d \<noteq> CHR 0x00"
proof -
  assume "d < 16"
  then have "d = 0 \<or> d = 1 \<or> d = 2 \<or> d = 3 \<or> d = 4 \<or> d = 5 \<or> d = 6 \<or> d = 7
      \<or> d = 8 \<or> d = 9 \<or> d = 10 \<or> d = 11 \<or> d = 12 \<or> d = 13 \<or> d = 14 \<or> d = 15"
    by arith
  then show ?thesis by (elim disjE) (simp_all add: hex_char_def)
qed

lemma unat_less_16_power:
  fixes v :: "'a::len word"
  assumes "LENGTH('a) \<le> 8 * k"
  shows "unat v < 16 ^ (2 * k)"
proof -
  have "unat v < 2 ^ LENGTH('a)" by (rule unsigned_less)
  also have "(2::nat) ^ LENGTH('a) \<le> 2 ^ (8 * k)"
    using assms by (intro power_increasing) simp_all
  also have "(2::nat) ^ (8 * k) = 16 ^ (2 * k)"
  proof -
    have "(16::nat) = 2 ^ 4" by simp
    then have "(16::nat) ^ (2 * k) = 2 ^ (4 * (2 * k))"
      by (simp only: power_mult)
    then show ?thesis by simp
  qed
  finally show ?thesis .
qed

lemma append_hex_spec:
  fixes v :: "'a::len word"
  assumes big: "4 < LENGTH('a)" and fits: "LENGTH('a) \<le> 8 * sizeof_T"
  shows "snd (append_hex sizeof_T b v) = snd b + 2 * sizeof_T
     \<and> (\<forall>a. a < snd b \<or> snd b + 2 * sizeof_T \<le> a
            \<longrightarrow> fst (append_hex sizeof_T b v) a = fst b a)
     \<and> map (fst (append_hex sizeof_T b v)) [snd b..<snd b + 2 * sizeof_T]
         = hex_pad (2 * sizeof_T) (unat v)"
proof -
  let ?n = "2 * sizeof_T"
  let ?h = "hex_min (unat v)"
  obtain m1 off where run1: "hex_digits_loop (fst b) (snd b) v 0 = (m1, off)"
    by (cases "hex_digits_loop (fst b) (snd b) v 0")
  from hex_digits_loop_spec [OF big run1]
  have off: "off = length ?h"
    and frame1: "\<And>a. a < snd b \<or> snd b + off \<le> a \<Longrightarrow> m1 a = fst b a"
    and out1: "map m1 [snd b..<snd b + off] = rev ?h"
    by auto
  obtain m2 sz where run2: "hex_pad_loop m1 (snd b) off 0 (sizeof_T * 2 - off) = (m2, sz)"
    by (cases "hex_pad_loop m1 (snd b) off 0 (sizeof_T * 2 - off)")
  from hex_pad_loop_spec [OF run2]
  have sz: "sz = off + (sizeof_T * 2 - off - 0)"
    and frame2: "\<And>a. a < snd b + off \<or> snd b + sz \<le> a \<Longrightarrow> m2 a = m1 a"
    and out2: "map m2 [snd b + off..<snd b + sz] = replicate (sizeof_T * 2 - off - 0) CHR ''0''"
    by blast+
  have npos: "0 < ?n" using big fits by simp
  from hex_pad_eq [OF unat_less_16_power [OF fits] npos]
  have le: "off \<le> ?n"
    and pad: "hex_pad ?n (unat v) = replicate (?n - off) CHR ''0'' @ ?h"
    by (simp_all add: off)
  have sz_n: "sz = ?n" using sz le by simp
  have offpos: "0 < off" using off hex_min_nonempty by simp
  have low: "map m2 [snd b..<snd b + off] = rev ?h"
  proof -
    have "map m2 [snd b..<snd b + off] = map m1 [snd b..<snd b + off]"
      using frame2 by simp
    with out1 show ?thesis by simp
  qed
  have split: "[snd b..<snd b + sz] = [snd b..<snd b + off] @ [snd b + off..<snd b + sz]"
  proof -
    have "snd b + sz = (snd b + off) + (sz - off)" using sz_n le by simp
    then show ?thesis
      by (metis le_add1 upt_add_eq_append)
  qed
  have all: "map m2 [snd b..<snd b + sz] = rev ?h @ replicate (?n - off) CHR ''0''"
    using low out2 by (simp add: split mult.commute)
  have "[snd b..<snd b + off] = snd b # [Suc (snd b)..<snd b + off]"
    using offpos by (simp add: upt_conv_Cons)
  with low have "m2 (snd b) # map m2 [Suc (snd b)..<snd b + off] = rev ?h"
    by simp
  then have "m2 (snd b) = hd (rev ?h)"
    by (metis list.sel(1))
  then have first: "m2 (snd b) = hex_char (unat v mod 16)"
    by (simp add: hd_rev last_hex_min)
  have nz: "m2 (snd b) \<noteq> CHR 0x00"
    unfolding first by (rule hex_char_not_nul) simp
  have szpos: "0 < sz" using sz_n npos by simp
  have res: "append_hex sizeof_T b v = (libfault_reverse m2 (snd b) sz, snd b + sz)"
    by (simp add: append_hex_def run1 run2)
  have "map (libfault_reverse m2 (snd b) sz) [snd b..<snd b + sz] = hex_pad ?n (unat v)"
    using map_reverse [of m2 "snd b" sz, OF nz szpos] all pad by simp
  moreover have "\<forall>a. a < snd b \<or> snd b + sz \<le> a \<longrightarrow> libfault_reverse m2 (snd b) sz a = fst b a"
  proof (intro allI impI)
    fix a assume a: "a < snd b \<or> snd b + sz \<le> a"
    then have "libfault_reverse m2 (snd b) sz a = m2 a"
      using szpos by (simp add: reverse_outside)
    also have "\<dots> = m1 a" using a by (intro frame2) auto
    also have "\<dots> = fst b a" using a sz_n le by (intro frame1) auto
    finally show "libfault_reverse m2 (snd b) sz a = fst b a" .
  qed
  ultimately show ?thesis
    by (simp add: res sz_n)
qed

lemma snd_append_hex:
  fixes v :: "'a::len word"
  assumes "4 < LENGTH('a)" and "LENGTH('a) \<le> 8 * sizeof_T"
  shows "snd (append_hex sizeof_T b v) = snd b + 2 * sizeof_T"
  using append_hex_spec [OF assms] by blast

lemma content_append_hex:
  fixes v :: "'a::len word"
  assumes "4 < LENGTH('a)" and "LENGTH('a) \<le> 8 * sizeof_T" and "base \<le> snd b"
  shows "content (append_hex sizeof_T b v) base = content b base @ hex_pad (2 * sizeof_T) (unat v)"
proof (rule content_extend [OF assms(3)])
  show "snd (append_hex sizeof_T b v) = snd b + length (hex_pad (2 * sizeof_T) (unat v))"
    using append_hex_spec [OF assms(1,2)] by (simp add: length_hex_pad)
  show "fst (append_hex sizeof_T b v) a = fst b a" if "a < snd b" for a
    using append_hex_spec [OF assms(1,2), of b v] that by blast
  show "map (fst (append_hex sizeof_T b v))
          [snd b..<snd b + length (hex_pad (2 * sizeof_T) (unat v))]
        = hex_pad (2 * sizeof_T) (unat v)"
    using append_hex_spec [OF assms(1,2), of b v] by (simp add: length_hex_pad)
qed

lemma hex_value_snoc: "hex_value (s @ [c]) = 16 * hex_value s + hex_digit_value c"
  by (simp add: hex_value_def)

lemma hex_digit_value_hex_char: "d < 16 \<Longrightarrow> hex_digit_value (hex_char d) = d"
proof -
  assume "d < 16"
  then have "d = 0 \<or> d = 1 \<or> d = 2 \<or> d = 3 \<or> d = 4 \<or> d = 5 \<or> d = 6 \<or> d = 7
      \<or> d = 8 \<or> d = 9 \<or> d = 10 \<or> d = 11 \<or> d = 12 \<or> d = 13 \<or> d = 14 \<or> d = 15"
    by arith
  then show ?thesis by (elim disjE) (simp_all add: hex_char_def hex_digit_value_def)
qed

lemma hex_value_hex_pad: "hex_value (hex_pad k n) = n mod 16 ^ k"
proof (induction k arbitrary: n)
  case 0
  then show ?case by (simp add: hex_value_def)
next
  case (Suc k)
  have "hex_value (hex_pad (Suc k) n) = 16 * (n div 16 mod 16 ^ k) + n mod 16"
    by (simp add: hex_value_snoc Suc.IH hex_digit_value_hex_char)
  also have "\<dots> = n mod (16 * 16 ^ k)"
    by (simp add: mod_mult2_eq)
  finally show ?case by simp
qed

lemma hex_value_hex_pad_word:
  fixes v :: "'a::len word"
  assumes "LENGTH('a) \<le> 8 * k"
  shows "hex_value (hex_pad (2 * k) (unat v)) = unat v"
  using unat_less_16_power [OF assms, of v] by (simp add: hex_value_hex_pad)

lemma content_self: "content b (snd b) = []"
  by (simp add: content_def)

lemma content_append_hex_uint:
  "base \<le> snd b \<Longrightarrow>
     content (libfault_append_hex_uint b v) base = content b base @ hex_pad 8 (unat v)"
  using content_append_hex [where v=v and sizeof_T=4 and base=base and b=b] by (simp add: libfault_append_hex_uint_def)

lemma snd_append_hex_uint: "snd (libfault_append_hex_uint b v) = snd b + 8"
  using snd_append_hex [where v=v and sizeof_T=4 and b=b] by (simp add: libfault_append_hex_uint_def)

lemma content_append_hex_ull:
  "base \<le> snd b \<Longrightarrow>
     content (libfault_append_hex_ull b v) base = content b base @ hex_pad 16 (unat v)"
  using content_append_hex [where v=v and sizeof_T=8 and base=base and b=b] by (simp add: libfault_append_hex_ull_def)

lemma snd_append_hex_ull: "snd (libfault_append_hex_ull b v) = snd b + 16"
  using snd_append_hex [where v=v and sizeof_T=8 and b=b] by (simp add: libfault_append_hex_ull_def)

lemma content_append_hex_ul:
  fixes v :: "'w::len word"
  assumes "LENGTH('w) mod 8 = 0" and "base \<le> snd b"
  shows "content (libfault_append_hex_ul b v) base
       = content b base @ hex_pad (2 * (LENGTH('w) div 8)) (unat v)"
proof -
  have "8 \<le> LENGTH('w)" using assms(1) by (simp add: mod_eq_0_iff_dvd dvd_imp_le)
  then have "4 < LENGTH('w)" by simp
  moreover have "LENGTH('w) \<le> 8 * (LENGTH('w) div 8)" using assms(1) by arith
  ultimately show ?thesis
    unfolding libfault_append_hex_ul_def using assms(2) by (rule content_append_hex)
qed

lemma snd_append_hex_ul:
  fixes v :: "'w::len word"
  assumes "LENGTH('w) mod 8 = 0"
  shows "snd (libfault_append_hex_ul b v) = snd b + 2 * (LENGTH('w) div 8)"
proof -
  have "8 \<le> LENGTH('w)" using assms(1) by (simp add: mod_eq_0_iff_dvd dvd_imp_le)
  then have "4 < LENGTH('w)" by simp
  moreover have "LENGTH('w) \<le> 8 * (LENGTH('w) div 8)" using assms(1) by arith
  ultimately show ?thesis
    unfolding libfault_append_hex_ul_def by (rule snd_append_hex)
qed

lemma hex_pad_numeral:
  "hex_pad (numeral k) n = hex_pad (pred_numeral k) (n div 16) @ [hex_char (n mod 16)]"
proof -
  have "hex_pad (Suc (pred_numeral k)) n
      = hex_pad (pred_numeral k) (n div 16) @ [hex_char (n mod 16)]"
    by simp
  then show ?thesis by (simp only: numeral_eq_Suc [symmetric])
qed

lemma unat_ull_of_int: "unat (ull_of_int n) = nat (n mod 2 ^ 64)"
  by (simp add: ull_of_int_def unat_eq_nat_uint uint_word_of_int_eq take_bit_eq_mod)

lemma decimal_ull_of_int: "decimal (unat (ull_of_int n)) = ull_decimal n"
  by (simp add: unat_ull_of_int ull_decimal_def)

lemma ull_decimal_nonneg: "0 \<le> n \<Longrightarrow> n < 2 ^ 64 \<Longrightarrow> ull_decimal n = decimal (nat n)"
  by (simp add: ull_decimal_def)

lemma content_append_signo:
  "base \<le> snd b \<Longrightarrow> content (libfault_append_signo b n) base = content b base @ signo_text n"
  by (simp add: libfault_append_signo_def signo_text_def signo_name_def Let_def
      content_append_text content_append_ull snd_append_text snd_append_ull decimal_ull_of_int)

lemma snd_append_signo: "snd (libfault_append_signo b n) = snd b + length (signo_text n)"
  by (simp add: libfault_append_signo_def signo_text_def signo_name_def Let_def
      snd_append_text snd_append_ull decimal_ull_of_int)

lemma content_append_ptr2str:
  "base \<le> snd b \<Longrightarrow> content (libfault_append_ptr2str b p) base = content b base @ ptr_text p"
  by (simp add: libfault_append_ptr2str_def ptr_text_def content_append_text
      content_append_hex_uint content_append_hex_ull snd_append_text)

lemma snd_append_ptr2str: "snd (libfault_append_ptr2str b p) = snd b + length (ptr_text p)"
  by (simp add: libfault_append_ptr2str_def ptr_text_def snd_append_text
      snd_append_hex_uint snd_append_hex_ull length_hex_pad)

lemma unat_ucast_uid: "unat (ucast (u :: 32 word) :: 64 word) = unat u"
proof -
  have "unat u < 2 ^ 32" using unsigned_less [of u] by simp
  then have "unat u < 2 ^ 64" by simp
  then show ?thesis
    by (simp add: unsigned_ucast_eq take_bit_nat_eq_self_iff)
qed

lemma content_append_sigreason_code:
  "base \<le> snd b \<Longrightarrow>
     content (append_sigreason_code b info) base = content b base @ sigcode_text info"
  by (simp add: append_sigreason_code_def sigcode_text_def Let_def
      content_append_text content_append_ull snd_append_text decimal_ull_of_int)

lemma snd_append_sigreason_code:
  "snd (append_sigreason_code b info) = snd b + length (sigcode_text info)"
  by (simp add: append_sigreason_code_def sigcode_text_def Let_def
      snd_append_text snd_append_ull decimal_ull_of_int)

lemma content_append_sigreason_sender:
  "base \<le> snd b \<Longrightarrow>
     content (append_sigreason_sender b info) base = content b base @ sigsender_text info"
  by (simp add: append_sigreason_sender_def sigsender_text_def Let_def unat_ucast_uid
      content_append_text content_append_ull snd_append_text snd_append_ull decimal_ull_of_int)

lemma snd_append_sigreason_sender:
  "snd (append_sigreason_sender b info) = snd b + length (sigsender_text info)"
  by (simp add: append_sigreason_sender_def sigsender_text_def Let_def unat_ucast_uid
      snd_append_text snd_append_ull decimal_ull_of_int)

lemma content_append_sigreason:
  "base \<le> snd b \<Longrightarrow>
     content (libfault_append_sigreason b info) base = content b base @ sigreason_text info"
  by (simp add: libfault_append_sigreason_def sigreason_text_def Let_def
      content_append_text content_append_ptr2str content_append_sigreason_code
      content_append_sigreason_sender snd_append_sigreason_code snd_append_sigreason_sender
      snd_append_text)

lemma snd_append_sigreason:
  "snd (libfault_append_sigreason b info) = snd b + length (sigreason_text info)"
  by (simp add: libfault_append_sigreason_def sigreason_text_def Let_def
      snd_append_text snd_append_ptr2str snd_append_sigreason_code snd_append_sigreason_sender)

lemma append_hex_written:
  fixes v :: "'a::len word"
  assumes "4 < LENGTH('a)" and "LENGTH('a) \<le> 8 * sizeof_T"
  shows "hex_written (append_hex sizeof_T buf v) buf sizeof_T (unat v)"
proof -
  have c: "content (append_hex sizeof_T buf v) (snd buf) = hex_pad (2 * sizeof_T) (unat v)"
    using content_append_hex [OF assms, of "snd buf" buf] by (simp add: content_self)
  show ?thesis
    unfolding hex_written_def c
    using append_hex_spec [OF assms, of buf v] hex_value_hex_pad_word [OF assms(2), of v]
    by (simp add: length_hex_pad)
qed

lemma hex_writtenD:
  assumes "hex_written buf' buf sizeof_T v"
  shows "snd buf' = snd buf + 2 * sizeof_T"
    and "content buf' (snd buf) = hex_pad (2 * sizeof_T) v"
    and "\<And>a. a < snd buf \<or> snd buf + 2 * sizeof_T \<le> a \<Longrightarrow> fst buf' a = fst buf a"
  using assms unfolding hex_written_def by blast+

section \<open>Properties of the dumpers and of the handler\<close>


lemma content_start [simp]: "content (m, 0) 0 = []"
  by (simp add: content_def)

lemmas fmt =
  content_append_text content_append_ull content_append_signo content_append_sigreason
  snd_append_text snd_append_ull snd_append_signo snd_append_sigreason decimal_ull_of_int

lemma safe_print_eq: "libfault_safe_print msg = Write STDERR_FILENO msg"
  by (simp add: libfault_safe_print_def libfault_safe_strlen_length)

lemma c_string_empty: "m 0 = CHR 0x00 \<Longrightarrow> c_string n m = []"
  by (cases n) (simp_all add: c_string_def upt_conv_Cons del: upt_Suc)

lemma dump_stack_loop_spec:
  fixes stack :: "'w::len word"
  assumes w: "LENGTH('w) mod 8 = 0"
  shows "base \<le> snd endp \<Longrightarrow>
     content (dump_stack_loop endp stack memory n) base
       = content endp base @ concat (map (stack_line stack memory) (rev [0..<n]))"
proof (induction n arbitrary: endp)
  case 0
  then show ?case by simp
next
  case (Suc n)
  let ?step =
    "libfault_append_text
       (libfault_append_hex_ul
          (libfault_append_text
             (libfault_append_text
                (libfault_append_hex_ul
                   (libfault_append_text (libfault_append_text endp ''('') ''0x'')
                   (stack_slot stack n))
                '') -> ('')
             ''0x'')
          (memory (stack_slot stack n)))
       '')\<newline>''"
  have c: "content ?step base = content endp base @ stack_line stack memory n"
    using Suc.prems
    by (simp add: stack_line_def content_append_text content_append_hex_ul [OF w]
        snd_append_text snd_append_hex_ul [OF w])
  have le: "base \<le> snd ?step"
    using Suc.prems by (simp add: snd_append_text snd_append_hex_ul [OF w])
  have "dump_stack_loop endp stack memory (Suc n) = dump_stack_loop ?step stack memory n"
    by (simp add: Let_def)
  then show ?case
    using Suc.IH [OF le] c by simp
qed

lemma dump_stack_text:
  fixes state :: "('w::len word) libfault_handler_state"
  assumes "LENGTH('w) mod 8 = 0" and "stack_pointer a (st_uc state) \<noteq> 0"
  shows "libfault_dump_stack a memory state
       = ends [Write STDERR_FILENO
                 (separator_line @ c_string 32 (st_msg_prefix state)
                  @ '' ] Stack dump (16 words)\<newline>''
                  @ concat (map (stack_line (stack_pointer a (st_uc state)) memory) (rev [0..<16]))
                  @ separator_line),
               Exit 1]"
  using assms(2)
  by (simp add: libfault_dump_stack_def Let_def libfault_write_err_def
      dump_stack_loop_spec [OF assms(1)] content_append_text snd_append_text)

lemma rev_upt_16: "rev [0..<16] = [15, 14, 13, 12, 11, 10, 9, 8, 7, 6, 5, 4, 3, 2, 1, 0::nat]"
  by (simp add: upt_rec)

lemma example_stack_line_15: "stack_line (0x1000 :: 64 word) (\<lambda>a. a) 15
     = ''(0x0000000000001078) -> (0x0000000000001078)\<newline>''"
  by (simp add: stack_line_def stack_slot_def hex_pad_numeral hex_char_def)

lemma example_stack_line_0: "stack_line (0x1000 :: 64 word) (\<lambda>a. a) 0
     = ''(0x0000000000001000) -> (0x0000000000001000)\<newline>''"
  by (simp add: stack_line_def stack_slot_def hex_pad_numeral hex_char_def)

lemma length_stack_line:
  "length (stack_line (stack :: 'w::len word) memory i) = 13 + 4 * (LENGTH('w) div 8)"
  by (simp add: stack_line_def length_hex_pad)

lemma dump_last_assertion_text:
  assumes "libfault_last_assert_info g
             = \<lparr> ai_filename = Some filename, ai_function = func,
                 ai_expression = Some expression, ai_line = line \<rparr>"
  shows "dump_last_assertion g state
       = does [Write STDERR_FILENO
                 (separator_line @ c_string 32 (st_msg_prefix state) @ '' ] ''
                  @ assertion_line expression func filename line @ ''\<newline>'')]"
  by (cases func)
     (simp_all add: dump_last_assertion_def assms Let_def libfault_write_err_def
       assertion_line_def content_append_text content_append_ull snd_append_text
       snd_append_ull unat_ucast_uid)

lemma seq_does: "seq (does xs) r = (xs @ fst r, snd r)"
  by (simp add: seq_def does_def)

lemma fst_seqs_does: "fst (seqs (does xs # rs)) = xs @ fst (seqs rs)"
  by (simp add: seq_does)

lemma spawn_and_wait_parent:
  "ch_fork e \<noteq> 0 \<Longrightarrow> \<exists>xs. spawn_and_wait e child_side fork_error wait_error = does xs"
  by (auto simp add: spawn_and_wait_def Let_def)

lemma dump_diagnostics_prints_assertion:
  assumes rec: "libfault_last_assert_info g
             = \<lparr> ai_filename = Some filename, ai_function = func,
                 ai_expression = Some expression, ai_line = line \<rparr>"
    and forks: "ch_fork (date_env e) \<noteq> 0" "ch_fork (uname_env e) \<noteq> 0"
      "ch_fork (ulimit_env e) \<noteq> 0"
  shows "Write STDERR_FILENO
           (separator_line @ c_string 32 (st_msg_prefix state) @ '' ] ''
            @ assertion_line expression func filename line @ ''\<newline>'')
         \<in> set (fst (libfault_dump_diagnostics a memory others os g state e))"
proof -
  let ?c1 = "seqs [libfault_close_all_fds os 2, execlp (execlp_ok os) ''date'' [''date''],
                   ends [Exit 1]]"
  let ?c2 = "seqs [libfault_close_all_fds os 2,
                   execlp (execlp_ok os) ''uname'' [''uname'', ''-mprsv''], ends [Exit 1]]"
  let ?c3 = "seqs [libfault_close_all_fds os 2,
                   execlp (execlp_ok os) ''ulimit'' [''ulimit'', ''-a''],
                   execlp (execlp_ok os) ''/bin/sh'' [''/bin/sh'', ''-c'', ''ulimit -a''],
                   ends [Exit 1]]"
  obtain xs1 where x1: "spawn_and_wait (date_env e) ?c1
      ''ERROR: Could not fork a process to dump the time!\<newline>''
      ''ERROR: Could not run 'date'!\<newline>'' = does xs1"
    using spawn_and_wait_parent [OF forks(1)] by blast
  obtain xs2 where x2: "spawn_and_wait (uname_env e) ?c2
      ''ERROR: Could not fork a process to dump the uname!\<newline>''
      ''ERROR: Could not run 'uname -mprsv'!\<newline>'' = does xs2"
    using spawn_and_wait_parent [OF forks(2)] by blast
  obtain xs3 where x3: "spawn_and_wait (ulimit_env e) ?c3
      ''ERROR: Could not fork a process to dump the ulimit!\<newline>''
      ''ERROR: Could not run 'ulimit -a'!\<newline>'' = does xs3"
    using spawn_and_wait_parent [OF forks(3)] by blast
  show ?thesis
    unfolding libfault_dump_diagnostics_def x1 x2 x3 dump_last_assertion_text [OF rec]
    by (simp only: fst_seqs_does) simp
qed



subsection \<open>The written text and the assertion line\<close>

lemma starts_with_iff: "starts_with xs ys \<longleftrightarrow> (\<exists>ss. ys = xs @ ss)"
  by (induction xs ys rule: starts_with.induct) auto

lemma occurs_in_iff: "occurs_in xs ys \<longleftrightarrow> (\<exists>ps ss. ys = ps @ xs @ ss)"
proof (induction ys)
  case Nil
  show ?case by simp
next
  case (Cons y ys)
  show ?case
  proof
    assume "occurs_in xs (y # ys)"
    then consider "starts_with xs (y # ys)" | "occurs_in xs ys" by auto
    then show "\<exists>ps ss. y # ys = ps @ xs @ ss"
    proof cases
      case 1
      then obtain ss where "y # ys = xs @ ss" by (auto simp add: starts_with_iff)
      then have "y # ys = [] @ xs @ ss" by simp
      then show ?thesis by blast
    next
      case 2
      then obtain ps ss where "ys = ps @ xs @ ss" using Cons by blast
      then have "y # ys = (y # ps) @ xs @ ss" by simp
      then show ?thesis by blast
    qed
  next
    assume "\<exists>ps ss. y # ys = ps @ xs @ ss"
    then obtain ps ss where eq: "y # ys = ps @ xs @ ss" by blast
    show "occurs_in xs (y # ys)"
    proof (cases ps)
      case Nil
      then have "y # ys = xs @ ss" using eq by simp
      then have "starts_with xs (y # ys)" by (simp only: starts_with_iff) blast
      then show ?thesis by simp
    next
      case (Cons p ps')
      then have "ys = ps' @ xs @ ss" using eq by simp
      then have "occurs_in xs ys" using Cons.IH by blast
      then show ?thesis by simp
    qed
  qed
qed

lemma occurs_in_append: "occurs_in xs ys \<Longrightarrow> occurs_in xs (ps @ ys @ ss)"
proof -
  assume "occurs_in xs ys"
  then obtain p s where "ys = p @ xs @ s" by (auto simp add: occurs_in_iff)
  then have "ps @ ys @ ss = (ps @ p) @ xs @ (s @ ss)" by simp
  then show ?thesis by (simp only: occurs_in_iff) blast
qed

lemma written_text_occurs:
  assumes "Write fd s \<in> set (fst r)" and "occurs_in xs s"
  shows "occurs_in xs (written_text r)"
proof -
  obtain evs1 evs2 where "fst r = evs1 @ Write fd s # evs2"
    using assms(1) by (auto dest: split_list)
  then have "written_text r
      = concat (map (\<lambda>ev. case ev of Write fd s \<Rightarrow> s | _ \<Rightarrow> []) evs1) @ s
        @ concat (map (\<lambda>ev. case ev of Write fd s \<Rightarrow> s | _ \<Rightarrow> []) evs2)"
    by (simp add: written_text_def)
  then show ?thesis
    using occurs_in_append [OF assms(2)] by simp
qed

lemma occurs_in_self: "occurs_in xs (ps @ xs @ ss)"
  by (simp only: occurs_in_iff) blast

lemma run_subprocess_example_parent:
  "fst (libfault_run_subprocess state callback timeLimit example_subprocess_env)
     = does [Pipe, Fork, Close 4, Poll 3 25 timeLimit, Close 3, Waitpid 77]"
  by (simp add: libfault_run_subprocess_def example_subprocess_env_def Let_def
      POLLIN_def POLLHUP_def POLLERR_def)

lemma spawn_and_wait_example_parent:
  "spawn_and_wait example_child_env child_side fork_error wait_error = does [Fork, Waitpid 70]"
  by (simp add: spawn_and_wait_def example_child_env_def Let_def)

lemma example_assertion_line_none:
  "assertion_line ''x == 1'' None ''t.c'' 42
     = ''Last assertion failure: (x == 1), file t.c, line 42.''"
  by (simp add: assertion_line_def decimal.simps digit_char_def)

lemma example_assertion_line_some:
  "assertion_line ''x == 1'' (Some f) ''t.c'' 42
     = ''Last assertion failure: (x == 1), function '' @ f @ '', file t.c, line 42.''"
  by (simp add: assertion_line_def decimal.simps digit_char_def)

lemma example_assertion_line_iff:
  "assertion_line ''x == 1'' func ''t.c'' 42
     = ''Last assertion failure: (x == 1), file t.c, line 42.'' \<longleftrightarrow> func = None"
  by (cases func) (simp_all add: assertion_line_def decimal.simps digit_char_def)

lemma example_prefix_empty: "c_string 32 (st_msg_prefix example_stack_state) = []"
  by (simp add: c_string_empty example_stack_state_def example_state_def)

lemma dump_diagnostics_example_run:
  "fst (libfault_dump_diagnostics Linux_x86_64 (\<lambda>a. a) example_dumpers example_os
          (assert_fail initial_globals ''x == 1'' ''t.c'' 42 func)
          example_stack_state example_diag_env)
   = [Write 2 separator_line, Fork, Waitpid 70, Fork, Waitpid 70, Fork, Waitpid 70,
      Write 2 (separator_line @ '' ] '' @ assertion_line ''x == 1'' func ''t.c'' 42
               @ ''\<newline>''),
      Pipe, Fork, Close 4, Poll 3 25 2000, Close 3, Waitpid 77,
      Pipe, Fork, Close 4, Poll 3 25 2000, Close 3, Waitpid 77,
      Write 2 '' ] libc backtrace available!\<newline>'',
      Pipe, Fork, Close 4, Poll 3 25 4000, Close 3, Waitpid 77,
      Write 2 separator_line, Write 2 separator_line, Write 2 separator_line,
      Write 2 ''\<newline>'']"
proof -
  let ?g = "assert_fail initial_globals ''x == 1'' ''t.c'' 42 func"
  have rec: "libfault_last_assert_info ?g
             = \<lparr> ai_filename = Some ''t.c'', ai_function = func,
                 ai_expression = Some ''x == 1'', ai_line = 42 \<rparr>"
    by (simp add: assert_fail_def)
  have custom: "libfault_custom_diagnostics_dumper ?g = None"
    by (simp add: assert_fail_def initial_globals_def)
  have envs: "date_env example_diag_env = example_child_env"
    "uname_env example_diag_env = example_child_env"
    "ulimit_env example_diag_env = example_child_env"
    "registers_env example_diag_env = example_subprocess_env"
    "stack_env example_diag_env = example_subprocess_env"
    "backtrace_env example_diag_env = example_subprocess_env"
    by (simp_all add: example_diag_env_def)
  have others: "libfault_dump_maps example_dumpers = does []"
    "libfault_dump_fds example_dumpers = does []"
    by (simp_all add: example_dumpers_def)
  have w1: "libfault_write_err (libfault_append_text (st_msg_buffer example_stack_state, 0)
              separator_line) = Write 2 separator_line"
    by (simp add: libfault_write_err_def content_append_text STDERR_FILENO_def)
  have w2: "libfault_write_err
              (libfault_append_text
                 (libfault_append_text (st_msg_buffer example_stack_state, 0)
                    (c_string 32 (st_msg_prefix example_stack_state)))
                 '' ] libc backtrace available!\<newline>'')
            = Write 2 '' ] libc backtrace available!\<newline>''"
    by (simp add: libfault_write_err_def content_append_text snd_append_text
        example_prefix_empty STDERR_FILENO_def)
  show ?thesis
    unfolding libfault_dump_diagnostics_def envs others custom w1 w2
      run_subprocess_example_parent spawn_and_wait_example_parent
      dump_last_assertion_text [OF rec] example_prefix_empty safe_print_eq
    by (simp add: seq_def does_def STDERR_FILENO_def libfault_write_err_def
        content_append_text snd_append_text)
qed

lemma example_no_plain_line:
  "\<not> occurs_in ''Last assertion failure: (x == 1), file t.c, line 42.''
       (written_text (libfault_dump_diagnostics Linux_x86_64 (\<lambda>a. a) example_dumpers example_os
          (assert_fail initial_globals ''x == 1'' ''t.c'' 42 (Some ''main''))
          example_stack_state example_diag_env))"
  by (simp add: written_text_def dump_diagnostics_example_run example_assertion_line_some
      separator_line_def)

subsection \<open>The root handler by its counter\<close>



lemma word_succ_eq_1: "(c :: 32 word) + 1 = 1 \<longleftrightarrow> c = 0"
  by simp







lemma snd_seq: "snd (seq r1 r2) = (snd r1 \<and> snd r2)"
  by (simp add: seq_def)

lemma fst_seq_alive: "snd r1 \<Longrightarrow> fst (seq r1 r2) = fst r1 @ fst r2"
  by (simp add: seq_def)


lemma fst_does: "fst (does evs) = evs"
  by (simp add: does_def)

































section \<open>Safe-format primitives: results\<close>

text \<open>
  C3. Width-complete hexadecimal formatting: for every value of type \<open>unsigned int\<close>,
  \<open>unsigned long\<close> (32 and 64 bits) and \<open>unsigned long long\<close> the formatter writes
  exactly \<open>2 * sizeof(T)\<close> hexadecimal digits, the zero-padded numeral of the value
  with its most significant digit first, changes no other byte, and returns the
  cursor advanced by that many bytes.
\<close>

theorem hex_append_width_complete:
  fixes vi :: "32 word" and vl32 :: "32 word" and vl64 :: "64 word" and vll :: "64 word"
  shows "hex_written (libfault_append_hex_uint buf vi) buf 4 (unat vi)
       \<and> hex_written (libfault_append_hex_ul buf vl32) buf 4 (unat vl32)
       \<and> hex_written (libfault_append_hex_ul buf vl64) buf 8 (unat vl64)
       \<and> hex_written (libfault_append_hex_ull buf vll) buf 8 (unat vll)"
proof -
  have ul32: "libfault_append_hex_ul buf vl32 = append_hex 4 buf vl32"
    by (simp add: libfault_append_hex_ul_def)
  have ul64: "libfault_append_hex_ul buf vl64 = append_hex 8 buf vl64"
    by (simp add: libfault_append_hex_ul_def)
  show ?thesis
    unfolding ul32 ul64 libfault_append_hex_uint_def libfault_append_hex_ull_def
    by (intro conjI append_hex_written) simp_all
qed

theorem hex_append_width_complete_witness:
  "snd (libfault_append_hex_uint (\<lambda>a. CHR ''#'', 5) 31) = 13
   \<and> content (libfault_append_hex_uint (\<lambda>a. CHR ''#'', 5) 31) 5 = ''0000001f''
   \<and> fst (libfault_append_hex_uint (\<lambda>a. CHR ''#'', 5) 31) 13 = CHR ''#''
   \<and> content (libfault_append_hex_ul (\<lambda>a. CHR ''#'', 0) (0xBEEF :: 32 word)) 0 = ''0000beef''
   \<and> content (libfault_append_hex_ul (\<lambda>a. CHR ''#'', 0) (0xBEEF :: 64 word)) 0 = ''000000000000beef''
   \<and> content (libfault_append_hex_ull (\<lambda>a. CHR ''#'', 0) 0) 0 = ''0000000000000000''"
proof -
  let ?b = "(\<lambda>a::nat. CHR ''#'', 5::nat)"
  let ?c = "(\<lambda>a::nat. CHR ''#'', 0::nat)"
  have e1: "hex_pad 8 31 = ''0000001f''"
    by (simp add: hex_pad_numeral hex_char_def)
  have e2: "hex_pad 8 48879 = ''0000beef''"
    by (simp add: hex_pad_numeral hex_char_def)
  have e3: "hex_pad 16 48879 = ''000000000000beef''"
    by (simp add: hex_pad_numeral hex_char_def)
  have e4: "hex_pad 16 0 = ''0000000000000000''"
    by (simp add: hex_pad_numeral hex_char_def)
  note w1 = hex_append_width_complete [of ?b 31 0 0 0]
  note w2 = hex_append_width_complete [of ?c 0 48879 48879 0]
  have ui: "hex_written (libfault_append_hex_uint ?b 31) ?b 4 (unat (31 :: 32 word))"
    using w1 by (rule conjunct1)
  have l32: "hex_written (libfault_append_hex_ul ?c (48879 :: 32 word)) ?c 4 (unat (48879 :: 32 word))"
    using w2 by blast
  have l64: "hex_written (libfault_append_hex_ul ?c (48879 :: 64 word)) ?c 8 (unat (48879 :: 64 word))"
    using w2 by blast
  have ll: "hex_written (libfault_append_hex_ull ?c 0) ?c 8 (unat (0 :: 64 word))"
    using w2 by blast
  have "snd (libfault_append_hex_uint ?b 31) = 13"
    using hex_writtenD(1) [OF ui] by simp
  moreover have "content (libfault_append_hex_uint ?b 31) 5 = ''0000001f''"
    using hex_writtenD(2) [OF ui] by (simp add: e1)
  moreover have "fst (libfault_append_hex_uint ?b 31) 13 = CHR ''#''"
    using hex_writtenD(3) [OF ui, of 13] by simp
  moreover have "content (libfault_append_hex_ul ?c (0xBEEF :: 32 word)) 0 = ''0000beef''"
    using hex_writtenD(2) [OF l32] by (simp add: e2)
  moreover have "content (libfault_append_hex_ul ?c (0xBEEF :: 64 word)) 0 = ''000000000000beef''"
    using hex_writtenD(2) [OF l64] by (simp add: e3)
  moreover have "content (libfault_append_hex_ull ?c 0) 0 = ''0000000000000000''"
    using hex_writtenD(2) [OF ll] by (simp add: e4)
  ultimately show ?thesis by blast
qed

text \<open>
  C7. For every signal number \<open>n\<close>, \<open>libfault_append_signo\<close> writes the name followed by
  \<open>(n)\<close> when \<open>n\<close> is one of SIGABRT, SIGSEGV, SIGBUS, SIGFPE and SIGILL, and the
  decimal number alone for every other \<open>n\<close>; the cursor returned is behind the text.
  The number printed is \<open>n\<close> as an \<open>unsigned long long\<close>, which is \<open>n\<close> for every
  \<open>n \<ge> 0\<close>.
\<close>

theorem append_signo_names:
  "content (libfault_append_signo buf n) (snd buf)
     = (case signo_name n of
          Some name \<Rightarrow> name @ ''('' @ ull_decimal n @ '')''
        | None \<Rightarrow> ull_decimal n)
   \<and> snd (libfault_append_signo buf n)
       = snd buf + length (content (libfault_append_signo buf n) (snd buf))
   \<and> signo_name SIGABRT = Some ''SIGABRT'' \<and> signo_name SIGSEGV = Some ''SIGSEGV''
   \<and> signo_name SIGBUS = Some ''SIGBUS'' \<and> signo_name SIGFPE = Some ''SIGFPE''
   \<and> signo_name SIGILL = Some ''SIGILL''
   \<and> (n \<notin> {SIGABRT, SIGSEGV, SIGBUS, SIGFPE, SIGILL} \<longrightarrow> signo_name n = None)
   \<and> (0 \<le> n \<and> n < 2 ^ 64 \<longrightarrow> ull_decimal n = decimal (nat n))"
proof -
  have c: "content (libfault_append_signo buf n) (snd buf) = signo_text n"
    using content_append_signo [of "snd buf" buf n] by (simp add: content_self)
  have "snd (libfault_append_signo buf n) = snd buf + length (signo_text n)"
    by (rule snd_append_signo)
  moreover have "signo_name SIGABRT = Some ''SIGABRT''" "signo_name SIGSEGV = Some ''SIGSEGV''"
    "signo_name SIGBUS = Some ''SIGBUS''" "signo_name SIGFPE = Some ''SIGFPE''"
    "signo_name SIGILL = Some ''SIGILL''"
    by (simp_all add: signo_name_def SIGABRT_def SIGSEGV_def SIGBUS_def SIGFPE_def SIGILL_def)
  moreover have "n \<notin> {SIGABRT, SIGSEGV, SIGBUS, SIGFPE, SIGILL} \<longrightarrow> signo_name n = None"
    by (simp add: signo_name_def)
  moreover have "0 \<le> n \<and> n < 2 ^ 64 \<longrightarrow> ull_decimal n = decimal (nat n)"
    by (simp add: ull_decimal_nonneg)
  ultimately show ?thesis
    unfolding c by (simp add: signo_text_def)
qed

theorem append_signo_names_witness:
  "content (libfault_append_signo (\<lambda>a. CHR ''#'', 0) SIGSEGV) 0 = ''SIGSEGV(11)''
   \<and> content (libfault_append_signo (\<lambda>a. CHR ''#'', 0) SIGABRT) 0 = ''SIGABRT(6)''
   \<and> content (libfault_append_signo (\<lambda>a. CHR ''#'', 0) 42) 0 = ''42''
   \<and> snd (libfault_append_signo (\<lambda>a. CHR ''#'', 0) 42) = 2"
proof -
  have d: "decimal 11 = ''11''" "decimal 6 = ''6''" "decimal 42 = ''42''"
    by (simp_all add: decimal.simps digit_char_def)
  show ?thesis
    using append_signo_names [of "(\<lambda>a. CHR ''#'', 0)" SIGSEGV]
          append_signo_names [of "(\<lambda>a. CHR ''#'', 0)" SIGABRT]
          append_signo_names [of "(\<lambda>a. CHR ''#'', 0)" 42]
    by (simp add: signo_name_def ull_decimal_def SIGABRT_def SIGSEGV_def SIGBUS_def
        SIGFPE_def SIGILL_def d)
qed

section \<open>Environment lookup: results\<close>

text \<open>
  C10. A configuration variable set to the empty string behaves exactly as an unset
  one: the lookup helper returns the supplied default, and the enablement check
  returns its default instead of reading the empty string as a falsy value.
\<close>

theorem env_empty_is_unset:
  assumes "getenv name = Some []"
  shows "libfault_env_get getenv name def = def
       \<and> libfault_env_get getenv name def = libfault_env_get (getenv(name := None)) name def
       \<and> libfault_env_enabled getenv name d = d
       \<and> libfault_env_enabled getenv name d = libfault_env_enabled (getenv(name := None)) name d"
  using assms by (simp add: libfault_env_get_def libfault_env_enabled_def)

theorem env_empty_is_unset_witness:
  "libfault_env_get (Map.empty(''LIBFAULT_ABORT_HANDLER'' \<mapsto> [])) ''LIBFAULT_ABORT_HANDLER'' (Some ''dflt'')
     = Some ''dflt''
   \<and> libfault_env_enabled (Map.empty(''LIBFAULT_ABORT_HANDLER'' \<mapsto> [])) ''LIBFAULT_ABORT_HANDLER'' True"
  using env_empty_is_unset [of "Map.empty(''LIBFAULT_ABORT_HANDLER'' \<mapsto> [])"
      "''LIBFAULT_ABORT_HANDLER''" "Some ''dflt''" True]
  by simp

section \<open>File-descriptor limit: results\<close>

lemma sint_ucast_small:
  fixes w :: "64 word"
  assumes "0 \<le> sint w" and "sint w \<le> 2147483647"
  shows "sint (ucast w :: 32 word) = sint w"
proof -
  have d: "is_down (ucast :: 64 word \<Rightarrow> 32 word)"
    by (simp add: is_down)
  have "(ucast :: 64 word \<Rightarrow> 32 word) = scast"
    by (rule down_cast_same [OF d])
  then have "(ucast w :: 32 word) = scast w"
    by (rule fun_cong)
  also have "\<dots> = word_of_int (sint w)"
    by (rule scast_eq)
  finally have "sint (ucast w :: 32 word) = sint (word_of_int (sint w) :: 32 word)"
    by (rule arg_cong)
  also have "\<dots> = signed_take_bit (LENGTH(32) - 1) (sint w)"
    by (rule sint_sbintrunc')
  also have "\<dots> = signed_take_bit 31 (sint w)"
    by simp
  also have "\<dots> = sint w"
    using assms by (simp add: signed_take_bit_int_eq_self_iff)
  finally show ?thesis .
qed

text \<open>
  C4, as stated, fails: the fallback value is not clamped from above. With a
  \<open>sysconf\<close> result of 1024 and a hard limit of 1048576 the fallback is 1048576.
\<close>

theorem fd_limit_not_clamped_counterexample:
  "\<not> sint (libfault_get_highest_fd Poll_failed
             \<lparr>sysconf_OPEN_MAX = 1024, getrlimit_ret = 0, rlim_max = 1048576\<rparr>) \<le> 9999"
  by (simp add: libfault_get_highest_fd_def scan_result_def libfault_get_fd_limit_def
      fd_limit_selected_def INT_MAX_def Let_def)

text \<open>
  C4, amended. Whenever the scan leaves no result, \<open>libfault_get_highest_fd\<close> returns
  the value of \<open>libfault_get_fd_limit\<close>. That value is 9999 when the limit the function
  settles on is negative, 2 when that limit is 0 or 1, and the limit itself otherwise:
  it is at least 2 for every limit that fits an \<open>int\<close>, and it has no upper bound
  but that of the limit.
\<close>

theorem fd_limit_fallback_value:
  "(scan_result s = - 1 \<longrightarrow> libfault_get_highest_fd s e = libfault_get_fd_limit e)
   \<and> (sint (fd_limit_selected e) < 0 \<longrightarrow> libfault_get_fd_limit e = 9999)
   \<and> (0 \<le> sint (fd_limit_selected e) \<and> sint (fd_limit_selected e) < 2
        \<longrightarrow> libfault_get_fd_limit e = 2)
   \<and> (2 \<le> sint (fd_limit_selected e) \<and> sint (fd_limit_selected e) \<le> INT_MAX
        \<longrightarrow> sint (libfault_get_fd_limit e) = sint (fd_limit_selected e))
   \<and> (sint (fd_limit_selected e) \<le> INT_MAX \<longrightarrow> 2 \<le> sint (libfault_get_fd_limit e))"
proof -
  let ?sel = "fd_limit_selected e"
  have a: "scan_result s = - 1 \<longrightarrow> libfault_get_highest_fd s e = libfault_get_fd_limit e"
    by (simp add: libfault_get_highest_fd_def)
  have b: "sint ?sel < 0 \<longrightarrow> libfault_get_fd_limit e = 9999"
    by (simp add: libfault_get_fd_limit_def Let_def)
  have c: "0 \<le> sint ?sel \<and> sint ?sel < 2 \<longrightarrow> libfault_get_fd_limit e = 2"
    by (simp add: libfault_get_fd_limit_def Let_def)
  have d: "2 \<le> sint ?sel \<and> sint ?sel \<le> INT_MAX
        \<longrightarrow> sint (libfault_get_fd_limit e) = sint ?sel"
  proof
    assume h: "2 \<le> sint ?sel \<and> sint ?sel \<le> INT_MAX"
    then have "libfault_get_fd_limit e = ucast ?sel"
      by (simp add: libfault_get_fd_limit_def Let_def)
    moreover have "sint (ucast ?sel :: 32 word) = sint ?sel"
      using h by (intro sint_ucast_small) (simp_all add: INT_MAX_def)
    ultimately show "sint (libfault_get_fd_limit e) = sint ?sel" by simp
  qed
  have e: "sint ?sel \<le> INT_MAX \<longrightarrow> 2 \<le> sint (libfault_get_fd_limit e)"
  proof
    assume h: "sint ?sel \<le> INT_MAX"
    consider "sint ?sel < 0" | "0 \<le> sint ?sel \<and> sint ?sel < 2" | "2 \<le> sint ?sel"
      by linarith
    then show "2 \<le> sint (libfault_get_fd_limit e)"
    proof cases
      case 1
      with b show ?thesis by simp
    next
      case 2
      with c show ?thesis by simp
    next
      case 3
      with d h show ?thesis by simp
    qed
  qed
  from a b c d e show ?thesis by blast
qed

theorem fd_limit_fallback_value_witness:
  "sint (libfault_get_highest_fd Fork_failed
       \<lparr>sysconf_OPEN_MAX = 1024, getrlimit_ret = 0, rlim_max = 4096\<rparr>) = 4096
   \<and> libfault_get_fd_limit \<lparr>sysconf_OPEN_MAX = - 1, getrlimit_ret = 0, rlim_max = - 1\<rparr> = 9999
   \<and> libfault_get_fd_limit \<lparr>sysconf_OPEN_MAX = - 1, getrlimit_ret = - 1, rlim_max = 0\<rparr> = 2"
proof -
  let ?e1 = "\<lparr>sysconf_OPEN_MAX = 1024, getrlimit_ret = 0, rlim_max = 4096\<rparr>"
  let ?e2 = "\<lparr>sysconf_OPEN_MAX = - 1, getrlimit_ret = 0, rlim_max = - 1\<rparr>"
  let ?e3 = "\<lparr>sysconf_OPEN_MAX = - 1, getrlimit_ret = - 1, rlim_max = 0\<rparr>"
  have s1: "fd_limit_selected ?e1 = 4096" and s2: "fd_limit_selected ?e2 = - 1"
    and s3: "fd_limit_selected ?e3 = 0"
    by (simp_all add: fd_limit_selected_def INT_MAX_def Let_def)
  have "libfault_get_highest_fd Fork_failed ?e1 = libfault_get_fd_limit ?e1"
    using fd_limit_fallback_value [of Fork_failed ?e1] by (simp add: scan_result_def)
  moreover have "sint (libfault_get_fd_limit ?e1) = 4096"
    using fd_limit_fallback_value [of Fork_failed ?e1] by (simp add: s1 INT_MAX_def)
  moreover have "libfault_get_fd_limit ?e2 = 9999"
    using fd_limit_fallback_value [of Fork_failed ?e2] by (simp add: s2)
  moreover have "libfault_get_fd_limit ?e3 = 2"
    using fd_limit_fallback_value [of Fork_failed ?e3] by (simp add: s3)
  ultimately show ?thesis by simp
qed

text \<open>
  C5, as stated, fails: the check compares with eight spellings only, so a mixed-case
  value such as \<open>Yes\<close>, \<open>True\<close> or \<open>oN\<close> is falsy. Setting
  \<open>LIBFAULT_ABORT_HANDLER=Yes\<close> leaves the handlers uninstalled.
\<close>

theorem env_enabled_mixed_case_counterexample:
  "\<not> libfault_env_enabled (Map.empty(''LIBFAULT_ABORT_HANDLER'' \<mapsto> ''Yes''))
        ''LIBFAULT_ABORT_HANDLER'' True
   \<and> \<not> libfault_env_enabled (Map.empty(''LIBFAULT_BEEP_ON_ABORT'' \<mapsto> ''True''))
        ''LIBFAULT_BEEP_ON_ABORT'' False
   \<and> \<not> libfault_env_enabled (Map.empty(''LIBFAULT_STOP_ON_ABORT'' \<mapsto> ''oN''))
        ''LIBFAULT_STOP_ON_ABORT'' False
   \<and> map_option abort_handler_installed
         (libfault_install_handlers (Map.empty(''LIBFAULT_ABORT_HANDLER'' \<mapsto> ''Yes'')) True
            \<lparr>ctx_diagnostics = None, ctx_app_name = None, ctx_app_version = None,
             ctx_log_name = None, ctx_bugreport_url = None\<rparr> initial_globals)
       = Some False"
  by (simp add: libfault_env_enabled_def libfault_env_get_def libfault_install_handlers_def
      initial_globals_def)

text \<open>
  C5, amended. For each environment variable consulted at install time, a non-empty
  value is truthy exactly when it is one of the eight strings \<open>yes\<close>, \<open>YES\<close>,
  \<open>y\<close>, \<open>Y\<close>, \<open>on\<close>, \<open>ON\<close>, \<open>true\<close>, \<open>TRUE\<close>; every other non-empty value,
  mixed-case spellings included, is falsy.
\<close>

theorem env_enabled_exact_spellings:
  assumes "getenv name = Some val" and "val \<noteq> []"
  shows "libfault_env_enabled getenv name d
       \<longleftrightarrow> val \<in> {''yes'', ''YES'', ''y'', ''Y'', ''on'', ''ON'', ''true'', ''TRUE''}"
  using assms by (simp add: libfault_env_enabled_def libfault_env_get_def)

theorem env_enabled_exact_spellings_witness:
  "libfault_env_enabled (Map.empty(''LIBFAULT_STOP_ON_ABORT'' \<mapsto> ''TRUE''))
     ''LIBFAULT_STOP_ON_ABORT'' False
   \<and> \<not> libfault_env_enabled (Map.empty(''LIBFAULT_ABORT_HANDLER'' \<mapsto> ''no''))
        ''LIBFAULT_ABORT_HANDLER'' True"
  using env_enabled_exact_spellings [of "Map.empty(''LIBFAULT_STOP_ON_ABORT'' \<mapsto> ''TRUE'')"
          "''LIBFAULT_STOP_ON_ABORT''" "''TRUE''" False]
        env_enabled_exact_spellings [of "Map.empty(''LIBFAULT_ABORT_HANDLER'' \<mapsto> ''no'')"
          "''LIBFAULT_ABORT_HANDLER''" "''no''" True]
  by simp

section \<open>Emergency pipes: results\<close>

text \<open>
  C9. The emergency-pipe close sequence is idempotent: after one execution all four
  descriptor slots are \<open>-1\<close>, and a second execution closes no descriptor and leaves
  the state as it is.
\<close>

theorem close_emergency_pipes_idempotent:
  "emergencyPipe1 (snd (close_emergency_pipes g)) = (- 1, - 1)
   \<and> emergencyPipe2 (snd (close_emergency_pipes g)) = (- 1, - 1)
   \<and> close_emergency_pipes (snd (close_emergency_pipes g))
       = ([], snd (close_emergency_pipes g))"
  by (simp add: close_emergency_pipes_def)

theorem close_emergency_pipes_idempotent_witness:
  "fst (close_emergency_pipes
          (initial_globals\<lparr>emergencyPipe1 := (3, 4), emergencyPipe2 := (5, - 1)\<rparr>))
     = [Close 3, Close 4, Close 5]
   \<and> fst (close_emergency_pipes (snd (close_emergency_pipes
          (initial_globals\<lparr>emergencyPipe1 := (3, 4), emergencyPipe2 := (5, - 1)\<rparr>)))) = []"
  using close_emergency_pipes_idempotent
          [of "initial_globals\<lparr>emergencyPipe1 := (3, 4), emergencyPipe2 := (5, - 1)\<rparr>"]
  by (simp add: close_emergency_pipes_def initial_globals_def)

section \<open>Subprocess runner: results\<close>

text \<open>
  C2, as stated, fails: when the pipe is created and the fork fails, the parent neither
  polls nor waits; it closes both ends of the pipe, reports the error and returns -1.
\<close>

theorem run_subprocess_fork_failure_counterexample:
  "libfault_run_subprocess example_state (ends [Exit 1]) 2000
     \<lparr> sp_pipe = 0, sp_fds = (3, 4), sp_errno = 11, sp_fork = - 1, sp_poll = 1,
       sp_waitpid = 0, sp_status = 0 \<rparr>
   = (([Pipe, Fork, Close 3, Close 4,
        Write 2 ''Could not create subprocess: fork() failed with errno=11\<newline>''], True),
      - 1)"
proof -
  have e: "ull_decimal 11 = ''11''"
    by (simp add: ull_decimal_def decimal.simps digit_char_def)
  show ?thesis
    by (simp add: libfault_run_subprocess_def Let_def libfault_write_err_def fmt does_def
        STDERR_FILENO_def e)
qed

text \<open>
  C2, amended. If pipe creation fails, \<open>libfault_run_subprocess\<close> reports the error
  through the scratch buffer and returns -1. If the fork fails, it closes both ends of
  the pipe, reports the error and returns -1, without polling or waiting. In the child
  it closes the read end, runs the callback and exits with 0. Otherwise the parent
  closes the write end, polls the read end for \<open>POLLIN | POLLHUP | POLLERR\<close> with the
  time limit, sends SIGKILL to the child (and prints a notice) exactly when the poll
  returns a value \<open>\<le> 0\<close>, closes the read end and waits for the child; it returns the
  status stored by \<open>waitpid\<close> when \<open>waitpid\<close> returns the child, and -1 otherwise.
\<close>

theorem run_subprocess_cases:
  "(sp_pipe e = - 1 \<longrightarrow>
      libfault_run_subprocess state callback timeLimit e
        = (does [Pipe, Write STDERR_FILENO (subprocess_failed_message ''pipe'' (sp_errno e))],
           - 1))
   \<and> (sp_pipe e \<noteq> - 1 \<and> sp_fork e = - 1 \<longrightarrow>
      libfault_run_subprocess state callback timeLimit e
        = (does [Pipe, Fork, Close (fst (sp_fds e)), Close (snd (sp_fds e)),
                 Write STDERR_FILENO (subprocess_failed_message ''fork'' (sp_errno e))],
           - 1))
   \<and> (sp_pipe e \<noteq> - 1 \<and> sp_fork e = 0 \<longrightarrow>
      fst (libfault_run_subprocess state callback timeLimit e)
        = seqs [does [Pipe, Fork, Close (fst (sp_fds e))], callback, ends [Exit 0]])
   \<and> (sp_pipe e \<noteq> - 1 \<and> sp_fork e \<noteq> 0 \<and> sp_fork e \<noteq> - 1 \<longrightarrow>
      libfault_run_subprocess state callback timeLimit e
        = (does ([Pipe, Fork, Close (snd (sp_fds e)),
                  Poll (fst (sp_fds e)) (POLLIN OR POLLHUP OR POLLERR) timeLimit]
                 @ (if sp_poll e \<le> 0
                    then [Kill (sp_fork e) SIGKILL,
                          Write STDERR_FILENO
                            ''Could not run child process: it did not exit in time\<newline>'']
                    else [])
                 @ [Close (fst (sp_fds e)), Waitpid (sp_fork e)]),
           if sp_waitpid e = sp_fork e then sp_status e else - 1))"
  by (simp add: libfault_run_subprocess_def Let_def libfault_write_err_def safe_print_eq fmt
      subprocess_failed_message_def)

theorem run_subprocess_cases_witness:
  "libfault_run_subprocess example_state (ends [Exit 1]) 2000
     \<lparr> sp_pipe = 0, sp_fds = (3, 4), sp_errno = 0, sp_fork = 77, sp_poll = 0,
       sp_waitpid = 77, sp_status = 9 \<rparr>
   = (([Pipe, Fork, Close 4, Poll 3 25 2000, Kill 77 9,
        Write 2 ''Could not run child process: it did not exit in time\<newline>'',
        Close 3, Waitpid 77], True), 9)
   \<and> libfault_run_subprocess example_state (ends [Exit 1]) 2000
     \<lparr> sp_pipe = - 1, sp_fds = (0, 0), sp_errno = 24, sp_fork = 0, sp_poll = 0,
       sp_waitpid = 0, sp_status = 0 \<rparr>
   = (([Pipe, Write 2 ''Could not create subprocess: pipe() failed with errno=24\<newline>''],
       True), - 1)"
  using run_subprocess_cases [of "\<lparr> sp_pipe = 0, sp_fds = (3, 4), sp_errno = 0, sp_fork = 77,
            sp_poll = 0, sp_waitpid = 77, sp_status = 9 \<rparr>" example_state "ends [Exit 1]" 2000]
        run_subprocess_cases [of "\<lparr> sp_pipe = - 1, sp_fds = (0, 0), sp_errno = 24, sp_fork = 0,
            sp_poll = 0, sp_waitpid = 0, sp_status = 0 \<rparr>" example_state "ends [Exit 1]" 2000]
  by (simp add: does_def STDERR_FILENO_def SIGKILL_def POLLIN_def POLLHUP_def POLLERR_def
      subprocess_failed_message_def ull_decimal_def decimal.simps digit_char_def)

section \<open>Stack dump: results\<close>

text \<open>
  C6, as stated, fails in the order of the lines: the loop counts down from 15, so
  the first line printed is the word 15 words above the stack pointer and the last
  line is the word at the stack pointer. With the stack pointer at \<open>0x1000\<close> on x86-64
  the first line is that of address \<open>0x1078\<close>.
\<close>

theorem dump_stack_order_counterexample:
  "libfault_dump_stack Linux_x86_64 (\<lambda>a. a) example_stack_state
     \<noteq> ends [Write STDERR_FILENO
               (separator_line @ c_string 32 (st_msg_prefix example_stack_state)
                @ '' ] Stack dump (16 words)\<newline>''
                @ concat (map (stack_line (0x1000 :: 64 word) (\<lambda>a. a))
                            [0, 1, 2, 3, 4, 5, 6, 7, 8, 9, 10, 11, 12, 13, 14, 15])
                @ separator_line),
             Exit 1]
   \<and> libfault_dump_stack Linux_x86_64 (\<lambda>a. a) example_stack_state
     = ends [Write STDERR_FILENO
               (separator_line @ '' ] Stack dump (16 words)\<newline>''
                @ ''(0x0000000000001078) -> (0x0000000000001078)\<newline>''
                @ concat (map (stack_line (0x1000 :: 64 word) (\<lambda>a. a))
                            [14, 13, 12, 11, 10, 9, 8, 7, 6, 5, 4, 3, 2, 1])
                @ ''(0x0000000000001000) -> (0x0000000000001000)\<newline>''
                @ separator_line),
             Exit 1]"
proof -
  have sp: "stack_pointer Linux_x86_64 (st_uc example_stack_state) = (0x1000 :: 64 word)"
    by (simp add: stack_pointer_def example_stack_state_def example_state_def)
  have pfx: "c_string 32 (st_msg_prefix example_stack_state) = []"
    by (simp add: c_string_empty example_stack_state_def example_state_def)
  have out: "libfault_dump_stack Linux_x86_64 (\<lambda>a. a) example_stack_state
       = ends [Write STDERR_FILENO
                 (separator_line @ '' ] Stack dump (16 words)\<newline>''
                  @ concat (map (stack_line (0x1000 :: 64 word) (\<lambda>a. a)) (rev [0..<16]))
                  @ separator_line),
               Exit 1]"
    using dump_stack_text [of Linux_x86_64 example_stack_state "\<lambda>a. a"]
    by (simp add: sp pfx)
  have first: "stack_line (0x1000 :: 64 word) (\<lambda>a. a) 15
             \<noteq> stack_line (0x1000 :: 64 word) (\<lambda>a. a) 0"
    by (simp add: example_stack_line_0 example_stack_line_15)
  have "concat (map (stack_line (0x1000 :: 64 word) (\<lambda>a. a)) (rev [0..<16]))
      \<noteq> concat (map (stack_line (0x1000 :: 64 word) (\<lambda>a. a))
                   [0, 1, 2, 3, 4, 5, 6, 7, 8, 9, 10, 11, 12, 13, 14, 15])"
    using first by (simp add: rev_upt_16 length_stack_line)
  then have ne: "libfault_dump_stack Linux_x86_64 (\<lambda>a. a) example_stack_state
     \<noteq> ends [Write STDERR_FILENO
               (separator_line @ c_string 32 (st_msg_prefix example_stack_state)
                @ '' ] Stack dump (16 words)\<newline>''
                @ concat (map (stack_line (0x1000 :: 64 word) (\<lambda>a. a))
                            [0, 1, 2, 3, 4, 5, 6, 7, 8, 9, 10, 11, 12, 13, 14, 15])
                @ separator_line),
             Exit 1]"
    by (simp add: out pfx ends_def)
  have "libfault_dump_stack Linux_x86_64 (\<lambda>a. a) example_stack_state
     = ends [Write STDERR_FILENO
               (separator_line @ '' ] Stack dump (16 words)\<newline>''
                @ ''(0x0000000000001078) -> (0x0000000000001078)\<newline>''
                @ concat (map (stack_line (0x1000 :: 64 word) (\<lambda>a. a))
                            [14, 13, 12, 11, 10, 9, 8, 7, 6, 5, 4, 3, 2, 1])
                @ ''(0x0000000000001000) -> (0x0000000000001000)\<newline>''
                @ separator_line),
             Exit 1]"
    by (simp add: out rev_upt_16 example_stack_line_0 example_stack_line_15 ends_def)
  with ne show ?thesis by blast
qed

text \<open>
  C6, amended. On a supported architecture (the stack pointer read from the machine
  context is not null; machine words of 32 or 64 bits) the stack dumper prints exactly
  16 machine words, one line per word formatted as \<open>(address) -> (value)\<close>, beginning
  with the word 15 words above the stack pointer and proceeding downward through the
  16 consecutive words to the word at the stack pointer itself.
\<close>

theorem dump_stack_sixteen_words_downward:
  fixes state :: "('w::len word) libfault_handler_state"
  assumes "LENGTH('w) mod 8 = 0" and "stack_pointer a (st_uc state) \<noteq> 0"
  shows "libfault_dump_stack a memory state
       = ends [Write STDERR_FILENO
                 (separator_line @ c_string 32 (st_msg_prefix state)
                  @ '' ] Stack dump (16 words)\<newline>''
                  @ concat (map (stack_line (stack_pointer a (st_uc state)) memory)
                              [15, 14, 13, 12, 11, 10, 9, 8, 7, 6, 5, 4, 3, 2, 1, 0])
                  @ separator_line),
               Exit 1]
       \<and> stack_slot (stack_pointer a (st_uc state)) 0 = stack_pointer a (st_uc state)"
  using dump_stack_text [OF assms, of memory]
  by (simp add: rev_upt_16 stack_slot_def)

theorem dump_stack_sixteen_words_downward_witness:
  "LENGTH(64) mod 8 = 0
   \<and> stack_pointer Linux_x86_64 (st_uc example_stack_state) = (0x1000 :: 64 word)
   \<and> libfault_dump_stack Linux_x86_64 (\<lambda>a. a) example_stack_state
       = ends [Write STDERR_FILENO
                 (separator_line @ '' ] Stack dump (16 words)\<newline>''
                  @ concat (map (stack_line (0x1000 :: 64 word) (\<lambda>a. a))
                              [15, 14, 13, 12, 11, 10, 9, 8, 7, 6, 5, 4, 3, 2, 1, 0])
                  @ separator_line),
               Exit 1]"
proof -
  have sp: "stack_pointer Linux_x86_64 (st_uc example_stack_state) = (0x1000 :: 64 word)"
    by (simp add: stack_pointer_def example_stack_state_def example_state_def)
  have pfx: "c_string 32 (st_msg_prefix example_stack_state) = []"
    by (simp add: c_string_empty example_stack_state_def example_state_def)
  have l: "LENGTH(64) mod 8 = 0" by simp
  have nz: "stack_pointer Linux_x86_64 (st_uc example_stack_state) \<noteq> 0"
    by (simp add: sp)
  show ?thesis
    using dump_stack_sixteen_words_downward [OF l nz, of "\<lambda>a. a"]
    by (simp add: sp pfx)
qed

section \<open>Assertion record: results\<close>

text \<open>
  C8, as stated, fails in its example: \<open>__assert_fail\<close> records the function it is passed,
  and the dumper puts \<open>function f, \<close> between the expression and the file whenever a
  function is recorded. For an assertion fired in \<open>main\<close> with expression \<open>x == 1\<close>,
  file \<open>t.c\<close> and line 42, the process that runs \<open>libfault_dump_diagnostics\<close> does what
  is listed here, and the line \<open>Last assertion failure: (x == 1), file t.c, line 42.\<close>
  occurs nowhere in what it writes.
\<close>

theorem dump_diagnostics_assertion_with_function_counterexample:
  "fst (libfault_dump_diagnostics Linux_x86_64 (\<lambda>a. a) example_dumpers example_os
          (assert_fail initial_globals ''x == 1'' ''t.c'' 42 (Some ''main''))
          example_stack_state example_diag_env)
   = [Write 2 ''--------------------------------------\<newline>'',
      Fork, Waitpid 70, Fork, Waitpid 70, Fork, Waitpid 70,
      Write 2 ''--------------------------------------\<newline> ] Last assertion failure: (x == 1), function main, file t.c, line 42.\<newline>'',
      Pipe, Fork, Close 4, Poll 3 25 2000, Close 3, Waitpid 77,
      Pipe, Fork, Close 4, Poll 3 25 2000, Close 3, Waitpid 77,
      Write 2 '' ] libc backtrace available!\<newline>'',
      Pipe, Fork, Close 4, Poll 3 25 4000, Close 3, Waitpid 77,
      Write 2 ''--------------------------------------\<newline>'',
      Write 2 ''--------------------------------------\<newline>'',
      Write 2 ''--------------------------------------\<newline>'',
      Write 2 ''\<newline>'']
   \<and> \<not> occurs_in ''Last assertion failure: (x == 1), file t.c, line 42.''
         (written_text
            (libfault_dump_diagnostics Linux_x86_64 (\<lambda>a. a) example_dumpers example_os
               (assert_fail initial_globals ''x == 1'' ''t.c'' 42 (Some ''main''))
               example_stack_state example_diag_env))"
  using example_no_plain_line
  by (simp add: dump_diagnostics_example_run example_assertion_line_some separator_line_def)

text \<open>
  C8, amended. Whenever the assertion record has been populated (the replacement of
  \<open>__assert_fail\<close> sets the file name together with the expression), the process that
  runs \<open>libfault_dump_diagnostics\<close> writes the line
  \<open>Last assertion failure: (expression), function f, file filename, line n.\<close>, in which
  \<open>function f, \<close> is present exactly when a function \<open>f\<close> was recorded. For an assertion
  fired with expression \<open>x == 1\<close>, file \<open>t.c\<close> and line 42, the line is
  \<open>Last assertion failure: (x == 1), file t.c, line 42.\<close> exactly when no function was
  recorded, and \<open>Last assertion failure: (x == 1), function f, file t.c, line 42.\<close>
  when the function \<open>f\<close> was.
\<close>

theorem dump_diagnostics_prints_last_assertion:
  assumes "libfault_last_assert_info g
             = \<lparr> ai_filename = Some filename, ai_function = func,
                 ai_expression = Some expression, ai_line = line \<rparr>"
    and "ch_fork (date_env e) \<noteq> 0" and "ch_fork (uname_env e) \<noteq> 0"
    and "ch_fork (ulimit_env e) \<noteq> 0"
  shows "Write STDERR_FILENO
           (separator_line @ c_string 32 (st_msg_prefix state) @ '' ] ''
            @ assertion_line expression func filename line @ ''\<newline>'')
           \<in> set (fst (libfault_dump_diagnostics a memory others os g state e))
       \<and> occurs_in (assertion_line expression func filename line)
           (written_text (libfault_dump_diagnostics a memory others os g state e))
       \<and> assertion_line expression func filename line
           = ''Last assertion failure: ('' @ expression @ ''), ''
             @ (case func of Some f \<Rightarrow> ''function '' @ f @ '', '' | None \<Rightarrow> [])
             @ ''file '' @ filename @ '', line '' @ decimal (unat line) @ ''.''
       \<and> libfault_last_assert_info (assert_fail g0 expression filename line func)
           = \<lparr> ai_filename = Some filename, ai_function = func,
               ai_expression = Some expression, ai_line = line \<rparr>
       \<and> (assertion_line ''x == 1'' func ''t.c'' 42
            = ''Last assertion failure: (x == 1), file t.c, line 42.'' \<longleftrightarrow> func = None)
       \<and> assertion_line ''x == 1'' (Some f) ''t.c'' 42
           = ''Last assertion failure: (x == 1), function '' @ f @ '', file t.c, line 42.''"
proof -
  let ?text = "separator_line @ c_string 32 (st_msg_prefix state) @ '' ] ''
               @ assertion_line expression func filename line @ ''\<newline>''"
  have w: "Write STDERR_FILENO ?text
             \<in> set (fst (libfault_dump_diagnostics a memory others os g state e))"
    by (rule dump_diagnostics_prints_assertion [OF assms])
  have "?text = (separator_line @ c_string 32 (st_msg_prefix state) @ '' ] '')
                @ assertion_line expression func filename line @ ''\<newline>''"
    by simp
  then have "occurs_in (assertion_line expression func filename line) ?text"
    by (simp only: occurs_in_self)
  with w have o: "occurs_in (assertion_line expression func filename line)
           (written_text (libfault_dump_diagnostics a memory others os g state e))"
    by (rule written_text_occurs)
  have l: "assertion_line expression func filename line
           = ''Last assertion failure: ('' @ expression @ ''), ''
             @ (case func of Some f \<Rightarrow> ''function '' @ f @ '', '' | None \<Rightarrow> [])
             @ ''file '' @ filename @ '', line '' @ decimal (unat line) @ ''.''"
    by (simp add: assertion_line_def)
  have r: "libfault_last_assert_info (assert_fail g0 expression filename line func)
           = \<lparr> ai_filename = Some filename, ai_function = func,
               ai_expression = Some expression, ai_line = line \<rparr>"
    by (simp add: assert_fail_def)
  from w o l r example_assertion_line_iff [of func] example_assertion_line_some [of f]
  show ?thesis by blast
qed

theorem dump_diagnostics_prints_last_assertion_witness:
  "occurs_in ''Last assertion failure: (x == 1), file t.c, line 42.''
     (written_text
        (libfault_dump_diagnostics Linux_x86_64 (\<lambda>a. a) example_dumpers example_os
           (assert_fail initial_globals ''x == 1'' ''t.c'' 42 None)
           example_stack_state example_diag_env))
   \<and> Write STDERR_FILENO
       (separator_line
        @ '' ] Last assertion failure: (x == 1), function main, file t.c, line 42.\<newline>'')
       \<in> set (fst (libfault_dump_diagnostics Linux_x86_64 (\<lambda>a. a) example_dumpers example_os
                     (assert_fail initial_globals ''x == 1'' ''t.c'' 42 (Some ''main''))
                     example_stack_state example_diag_env))"
proof -
  have r: "libfault_last_assert_info (assert_fail initial_globals ''x == 1'' ''t.c'' 42 func)
             = \<lparr> ai_filename = Some ''t.c'', ai_function = func,
                 ai_expression = Some ''x == 1'', ai_line = 42 \<rparr>" for func
    by (simp add: assert_fail_def)
  have f: "ch_fork (date_env example_diag_env) \<noteq> 0"
    "ch_fork (uname_env example_diag_env) \<noteq> 0"
    "ch_fork (ulimit_env example_diag_env) \<noteq> 0"
    by (simp_all add: example_diag_env_def example_child_env_def)
  have "occurs_in (assertion_line ''x == 1'' None ''t.c'' 42)
          (written_text
             (libfault_dump_diagnostics Linux_x86_64 (\<lambda>a. a) example_dumpers example_os
                (assert_fail initial_globals ''x == 1'' ''t.c'' 42 None)
                example_stack_state example_diag_env))"
    using dump_diagnostics_prints_last_assertion [OF r f,
        where state = example_stack_state and a = Linux_x86_64 and memory = "\<lambda>a. a"
          and others = example_dumpers and os = example_os and ?g0.0 = initial_globals
          and f = "''main''"]
    by blast
  then have plain: "occurs_in ''Last assertion failure: (x == 1), file t.c, line 42.''
          (written_text
             (libfault_dump_diagnostics Linux_x86_64 (\<lambda>a. a) example_dumpers example_os
                (assert_fail initial_globals ''x == 1'' ''t.c'' 42 None)
                example_stack_state example_diag_env))"
    by (simp only: example_assertion_line_none)
  have "Write STDERR_FILENO
           (separator_line @ c_string 32 (st_msg_prefix example_stack_state) @ '' ] ''
            @ assertion_line ''x == 1'' (Some ''main'') ''t.c'' 42 @ ''\<newline>'')
           \<in> set (fst (libfault_dump_diagnostics Linux_x86_64 (\<lambda>a. a) example_dumpers
                         example_os
                         (assert_fail initial_globals ''x == 1'' ''t.c'' 42 (Some ''main''))
                         example_stack_state example_diag_env))"
    using dump_diagnostics_prints_last_assertion [OF r f,
        where state = example_stack_state and a = Linux_x86_64 and memory = "\<lambda>a. a"
          and others = example_dumpers and os = example_os and ?g0.0 = initial_globals
          and f = "''main''"]
    by (rule conjunct1)
  then have with_function: "Write STDERR_FILENO
       (separator_line
        @ '' ] Last assertion failure: (x == 1), function main, file t.c, line 42.\<newline>'')
       \<in> set (fst (libfault_dump_diagnostics Linux_x86_64 (\<lambda>a. a) example_dumpers example_os
                     (assert_fail initial_globals ''x == 1'' ''t.c'' 42 (Some ''main''))
                     example_stack_state example_diag_env))"
    by (simp add: example_prefix_empty example_assertion_line_some)
  from plain with_function show ?thesis by blast
qed

section \<open>Root handler: results\<close>




end
